theory Spec2Isabelle
  imports Complex_Main
begin

section \<open>JavaScript values and objects\<close>

text \<open>
  Payloads travelling between the services are JSON values. A JavaScript object is an
  ordered collection of properties with pairwise different keys; it is kept as an
  association list that is only ever changed through \<open>set_prop\<close>, the model of the
  assignment \<^verbatim>\<open>obj[k] = v\<close>: an existing key keeps its place and gets the new value, a new
  key goes to the end. (The engine lists integer-like keys first; the order of the fields
  is not observable in any property stated below, which read objects through \<open>map_of\<close>.)
\<close>

datatype json =
    JNull
  | JBool bool
  | JNum real
  | JStr string
  | JArr "json list"
  | JObj "(string \<times> json) list"

type_synonym 'v js_object = "(string \<times> 'v) list"

fun set_prop :: "string \<Rightarrow> 'v \<Rightarrow> 'v js_object \<Rightarrow> 'v js_object" where
  "set_prop k v [] = [(k, v)]"
| "set_prop k v ((k', v') # ps) =
     (if k' = k then (k, v) # ps else (k', v') # set_prop k v ps)"

text \<open>Decimal rendering of a number, as a template literal or a property index shows it.\<close>

definition digit_char :: "nat \<Rightarrow> char" where
  "digit_char d = char_of (48 + d)"

function show_nat :: "nat \<Rightarrow> string" where
  "show_nat n = (if n < 10 then [digit_char n] else show_nat (n div 10) @ [digit_char (n mod 10)])"
  by pat_completeness auto
termination
  by (relation "measure (\<lambda>n. n)") auto

declare show_nat.simps [simp del]

text \<open>
  The own enumerable properties that an object spread \<^verbatim>\<open>{...x}\<close> copies: the fields of an
  object, the indexed elements of an array, the indexed characters of a string, and nothing
  for \<^verbatim>\<open>null\<close>, booleans and numbers.
\<close>

definition index_keys :: "nat \<Rightarrow> string list" where
  "index_keys n = map show_nat [0..<n]"

fun own_props :: "json \<Rightarrow> json js_object" where
  "own_props (JObj kvs) = kvs"
| "own_props (JArr xs) = zip (index_keys (length xs)) xs"
| "own_props (JStr s) = zip (index_keys (length s)) (map (\<lambda>c. JStr [c]) s)"
| "own_props JNull = []"
| "own_props (JBool b) = []"
| "own_props (JNum n) = []"

text \<open>\<^verbatim>\<open>{ ...target, ...src }\<close>: the properties of \<open>src\<close> are assigned one by one, in order,
  onto a copy of \<open>target\<close>.\<close>

definition copy_props :: "'v js_object \<Rightarrow> 'v js_object \<Rightarrow> 'v js_object" where
  "copy_props props target = fold (\<lambda>(k, v). set_prop k v) props target"

definition spread :: "json js_object \<Rightarrow> json \<Rightarrow> json js_object" where
  "spread target src = copy_props (own_props src) target"

text \<open>A template literal renders a missing value as the text \<^verbatim>\<open>undefined\<close>.\<close>

definition template :: "string option \<Rightarrow> string" where
  "template v = (case v of None \<Rightarrow> ''undefined'' | Some s \<Rightarrow> s)"

text \<open>\<^verbatim>\<open>String.prototype.toLowerCase\<close> on the ASCII range.\<close>

definition lower_char :: "char \<Rightarrow> char" where
  "lower_char c =
     (let n = (of_char c :: nat) in if 65 \<le> n \<and> n \<le> 90 then char_of (n + 32) else c)"

definition toLowerCase :: "string \<Rightarrow> string" where
  "toLowerCase s = map lower_char s"

section \<open>The HTTP client\<close>

text \<open>
  \<^verbatim>\<open>axios\<close> resolves with a response object on a 2xx answer and rejects with an error
  object otherwise. An error object has a \<^verbatim>\<open>message\<close>; one thrown by \<^verbatim>\<open>axios\<close> may have a
  \<^verbatim>\<open>code\<close>, and has a \<^verbatim>\<open>response\<close> exactly when the backend answered (with a status outside
  2xx): a transport failure has none. The network is a parameter of every handler.
\<close>

record axios_response =
  resp_status :: nat
  resp_statusText :: string
  resp_headers :: "string js_object"
  resp_data :: json

record js_error =
  err_message :: string
  err_code :: "string option"
  err_response :: "axios_response option"

datatype 'a outcome = Resolves 'a | Rejects js_error

text \<open>\<^verbatim>\<open>axios.get(url, { timeout })\<close>.\<close>

type_synonym axios_get = "string \<Rightarrow> nat \<Rightarrow> axios_response outcome"

text \<open>
  \<^verbatim>\<open>measureExecutionTime\<close> (utils/logger.js) awaits the wrapped function, logs the latency
  and returns its result, or logs the failure and rethrows the same error. Log output is
  not part of the model.
\<close>

definition measureExecutionTime :: "'a outcome \<Rightarrow> 'a outcome" where
  "measureExecutionTime asyncFunction =
     (case asyncFunction of Resolves result \<Rightarrow> Resolves result | Rejects error \<Rightarrow> Rejects error)"

section \<open>Concurrent completion\<close>

text \<open>
  A schedule lists the indices of the pending promises in the order in which they settle.
  \<^verbatim>\<open>Promise.allSettled\<close> keeps one slot per input promise; the promise at index \<open>i\<close> writes
  its result object into slot \<open>i\<close> when it settles, and the combined promise resolves with
  the slots once none is empty. A schedule that leaves a promise pending never resolves it:
  the result is \<open>None\<close>.
\<close>

datatype 'a settled = Fulfilled 'a | Rejected js_error

definition settle :: "'a outcome \<Rightarrow> 'a settled" where
  "settle p = (case p of Resolves v \<Rightarrow> Fulfilled v | Rejects e \<Rightarrow> Rejected e)"

definition valid_schedule :: "nat \<Rightarrow> nat list \<Rightarrow> bool" where
  "valid_schedule n order = (distinct order \<and> set order = set [0..<n])"

definition fill_slot :: "'a outcome list \<Rightarrow> nat \<Rightarrow> 'a settled option list \<Rightarrow> 'a settled option list" where
  "fill_slot promises i slots =
     (if i < length slots then slots[i := Some (settle (promises ! i))] else slots)"

definition allSettled :: "nat list \<Rightarrow> 'a outcome list \<Rightarrow> 'a settled list option" where
  "allSettled order promises =
     (let slots = fold (fill_slot promises) order (replicate (length promises) None)
      in if list_all (\<lambda>s. s \<noteq> None) slots then Some (map the slots) else None)"

section \<open>The search service: \<^verbatim>\<open>GET /poke/search\<close>\<close>

text \<open>
  The three base URLs come from the process environment (with localhost defaults) and are
  fixed for the life of the process.
\<close>

record search_cfg =
  POKE_API_URL :: string
  STATS_API_URL :: string
  IMAGES_API_URL :: string

definition pokemon_data_url :: "search_cfg \<Rightarrow> string \<Rightarrow> string" where
  "pokemon_data_url cfg pokemonName = POKE_API_URL cfg @ ''/api/pokemon/'' @ pokemonName"

definition pokemon_stats_url :: "search_cfg \<Rightarrow> string \<Rightarrow> string" where
  "pokemon_stats_url cfg pokemonName = STATS_API_URL cfg @ ''/api/stats/'' @ pokemonName"

definition pokemon_image_url :: "search_cfg \<Rightarrow> string \<Rightarrow> string" where
  "pokemon_image_url cfg pokemonName = IMAGES_API_URL cfg @ ''/api/images/'' @ pokemonName"

text \<open>
  The value of \<^verbatim>\<open>req.query.pokemon_name\<close> as the query parser of Express hands it over: a
  string for a parameter given once, an array for one that is repeated or written with
  \<^verbatim>\<open>[]\<close>, an object for one written with named brackets. \<^verbatim>\<open>!pokemon_name\<close> is true of a
  missing parameter and of the empty string only: arrays and objects are truthy.

  A template literal converts the value to a string: an array to its elements, converted,
  joined by commas; an object to \<^verbatim>\<open>[object Object]\<close>, unless the request gave it a property
  \<^verbatim>\<open>toString\<close> of its own (the parser allows that name), which is not a function, so that
  the conversion raises a TypeError (\<open>None\<close>).
\<close>

datatype query_value =
    QStr string
  | QArr "query_value list"
  | QObj "(string \<times> query_value) list"

fun truthy :: "query_value \<Rightarrow> bool" where
  "truthy (QStr s) = (s \<noteq> [])"
| "truthy (QArr vs) = True"
| "truthy (QObj kvs) = True"

fun join_comma :: "string list \<Rightarrow> string" where
  "join_comma [] = []"
| "join_comma [p] = p"
| "join_comma (p # q # ps) = p @ '','' @ join_comma (q # ps)"

fun to_string :: "query_value \<Rightarrow> string option" where
  "to_string (QStr s) = Some s"
| "to_string (QArr vs) = map_option join_comma (those (map to_string vs))"
| "to_string (QObj kvs) =
     (if ''toString'' \<in> set (map fst kvs) then None else Some ''[object Object]'')"

definition primitive_error :: js_error where
  "primitive_error =
     \<lparr>err_message = ''Cannot convert object to primitive value'', err_code = None,
      err_response = None\<rparr>"

text \<open>
  The requests a handler has sent are kept in a log that every call of \<^verbatim>\<open>axios.get\<close>
  extends; functions that may call it take the log (\<open>sent\<close>) and return it.
\<close>

type_synonym request_log = "string list"

definition http_get ::
  "axios_get \<Rightarrow> string \<Rightarrow> nat \<Rightarrow> request_log \<Rightarrow> axios_response outcome \<times> request_log" where
  "http_get get url timeout sent = (get url timeout, sent @ [url])"

definition fetchPokemonData ::
  "search_cfg \<Rightarrow> axios_get \<Rightarrow> query_value \<Rightarrow> request_log \<Rightarrow> json outcome \<times> request_log" where
  "fetchPokemonData cfg get pokemonName sent =
     (case to_string pokemonName of
        None \<Rightarrow> (measureExecutionTime (Rejects primitive_error), sent)
      | Some name \<Rightarrow>
          (case http_get get (pokemon_data_url cfg name) 5000 sent of
             (settled, sent') \<Rightarrow>
               (measureExecutionTime
                  (case settled of
                     Resolves response \<Rightarrow> Resolves (resp_data response)
                   | Rejects error \<Rightarrow> Rejects error),
                sent')))"

definition fetchPokemonStats ::
  "search_cfg \<Rightarrow> axios_get \<Rightarrow> query_value \<Rightarrow> request_log \<Rightarrow> json outcome \<times> request_log" where
  "fetchPokemonStats cfg get pokemonName sent =
     (case to_string pokemonName of
        None \<Rightarrow> (measureExecutionTime (Rejects primitive_error), sent)
      | Some name \<Rightarrow>
          (case http_get get (pokemon_stats_url cfg name) 5000 sent of
             (settled, sent') \<Rightarrow>
               (measureExecutionTime
                  (case settled of
                     Resolves response \<Rightarrow> Resolves (resp_data response)
                   | Rejects error \<Rightarrow> Rejects error),
                sent')))"

definition fetchPokemonImage ::
  "search_cfg \<Rightarrow> axios_get \<Rightarrow> query_value \<Rightarrow> request_log \<Rightarrow> json outcome \<times> request_log" where
  "fetchPokemonImage cfg get pokemonName sent =
     (case to_string pokemonName of
        None \<Rightarrow> (measureExecutionTime (Rejects primitive_error), sent)
      | Some name \<Rightarrow>
          (case http_get get (pokemon_image_url cfg name) 5000 sent of
             (settled, sent') \<Rightarrow>
               (measureExecutionTime
                  (case settled of
                     Resolves response \<Rightarrow> Resolves (resp_data response)
                   | Rejects error \<Rightarrow> Rejects error),
                sent')))"

text \<open>
  The response object \<^verbatim>\<open>{ name, status: {}, data: {} }\<close> and the three steps that fill it.
  The fields carry a prefix because \<open>name\<close>, \<open>status\<close> and \<open>data\<close> are field names of
  several objects of the program.
\<close>

record aggregated =
  agg_name :: query_value
  agg_status :: "string js_object"
  agg_data :: "json js_object"

definition merge_poke :: "json settled \<Rightarrow> aggregated \<Rightarrow> aggregated" where
  "merge_poke pokeData response =
     (case pokeData of
        Fulfilled v \<Rightarrow>
          response\<lparr>agg_data := spread (agg_data response) v,
                   agg_status := set_prop ''poke_api'' ''success'' (agg_status response)\<rparr>
      | Rejected reason \<Rightarrow>
          response\<lparr>agg_status := set_prop ''poke_api'' ''error'' (agg_status response),
                   agg_data := set_prop ''poke_api_error'' (JStr (err_message reason)) (agg_data response)\<rparr>)"

definition merge_stats :: "json settled \<Rightarrow> aggregated \<Rightarrow> aggregated" where
  "merge_stats statsData response =
     (case statsData of
        Fulfilled v \<Rightarrow>
          response\<lparr>agg_data := set_prop ''stats'' v (agg_data response),
                   agg_status := set_prop ''stats_api'' ''success'' (agg_status response)\<rparr>
      | Rejected reason \<Rightarrow>
          response\<lparr>agg_status := set_prop ''stats_api'' ''error'' (agg_status response),
                   agg_data := set_prop ''stats_error'' (JStr (err_message reason)) (agg_data response)\<rparr>)"

definition merge_image :: "json settled \<Rightarrow> aggregated \<Rightarrow> aggregated" where
  "merge_image imageData response =
     (case imageData of
        Fulfilled v \<Rightarrow>
          response\<lparr>agg_data := set_prop ''image'' v (agg_data response),
                   agg_status := set_prop ''images_api'' ''success'' (agg_status response)\<rparr>
      | Rejected reason \<Rightarrow>
          response\<lparr>agg_status := set_prop ''images_api'' ''error'' (agg_status response),
                   agg_data := set_prop ''image_error'' (JStr (err_message reason)) (agg_data response)\<rparr>)"

definition merge_results :: "query_value \<Rightarrow> json settled \<Rightarrow> json settled \<Rightarrow> json settled \<Rightarrow> aggregated" where
  "merge_results pokemon_name pokeData statsData imageData =
     merge_image imageData
       (merge_stats statsData
         (merge_poke pokeData \<lparr>agg_name = pokemon_name, agg_status = [], agg_data = []\<rparr>))"

text \<open>
  What the handler writes back: a status code and a JSON body, which is either a flat
  error object or the aggregated response. The handler takes the request log and returns
  it with the reply. The query parameter is \<open>None\<close> when the request has no
  \<^verbatim>\<open>pokemon_name\<close>.

  \<open>pokemon_search\<close> is the asynchronous function that the handler passes to
  \<^verbatim>\<open>measureExecutionTime\<close>: it writes a log line that converts the name to a string, starts
  the three lookups one after the other, awaits \<^verbatim>\<open>Promise.allSettled\<close> and merges.
  Destructuring an array of fewer than three results would leave a variable \<^verbatim>\<open>undefined\<close>,
  whose \<^verbatim>\<open>.status\<close> raises a TypeError. An error thrown in that function is what the
  \<^verbatim>\<open>catch\<close> of the handler turns into the reply 500.
\<close>

datatype search_body = Error_body "string js_object" | Search_body aggregated

record 'b http_response =
  status_code :: nat
  body :: 'b

definition missing_parameter :: "search_body http_response" where
  "missing_parameter =
     \<lparr>status_code = 400, body = Error_body [(''error'', ''pokemon_name parameter is required'')]\<rparr>"

definition undefined_status_message :: string where
  "undefined_status_message =
     ''Cannot read properties of undefined (reading '' @ [CHR 0x27] @ ''status'' @ [CHR 0x27] @ '')''"

definition internal_error :: "string \<Rightarrow> search_body http_response" where
  "internal_error msg =
     \<lparr>status_code = 500,
      body = Error_body [(''error'', ''Internal server error''), (''message'', msg)]\<rparr>"

definition pokemon_search ::
  "search_cfg \<Rightarrow> axios_get \<Rightarrow> nat list \<Rightarrow> query_value \<Rightarrow> request_log \<Rightarrow>
     (aggregated outcome \<times> request_log) option" where
  "pokemon_search cfg get order pokemon_name sent =
     (case to_string pokemon_name of
        None \<Rightarrow> Some (Rejects primitive_error, sent)
      | Some searching_for \<Rightarrow>
          (case fetchPokemonData cfg get pokemon_name sent of
             (data_promise, sent1) \<Rightarrow>
          (case fetchPokemonStats cfg get pokemon_name sent1 of
             (stats_promise, sent2) \<Rightarrow>
          (case fetchPokemonImage cfg get pokemon_name sent2 of
             (image_promise, sent3) \<Rightarrow>
          (case allSettled order [data_promise, stats_promise, image_promise] of
             None \<Rightarrow> None
           | Some results \<Rightarrow>
               Some (case results of
                       pokeData # statsData # imageData # _ \<Rightarrow>
                         Resolves (merge_results pokemon_name pokeData statsData imageData)
                     | _ \<Rightarrow>
                         Rejects \<lparr>err_message = undefined_status_message, err_code = None,
                                  err_response = None\<rparr>,
                     sent3))))))"

definition search_handler ::
  "search_cfg \<Rightarrow> axios_get \<Rightarrow> nat list \<Rightarrow> query_value option \<Rightarrow> request_log \<Rightarrow>
     (request_log \<times> search_body http_response) option" where
  "search_handler cfg get order query_pokemon_name sent =
     (case query_pokemon_name of
        None \<Rightarrow> Some (sent, missing_parameter)
      | Some pokemon_name \<Rightarrow>
          if \<not> truthy pokemon_name then Some (sent, missing_parameter)
          else
            (case pokemon_search cfg get order pokemon_name sent of
               None \<Rightarrow> None
             | Some (run, sent') \<Rightarrow>
                 Some (sent',
                       (case measureExecutionTime run of
                          Resolves result \<Rightarrow> \<lparr>status_code = 200, body = Search_body result\<rparr>
                        | Rejects error \<Rightarrow> internal_error (err_message error)))))"

section \<open>The gateway\<close>

text \<open>The service registry: four fixed names, each with a base URL from the environment.\<close>

record gateway_cfg =
  SEARCH_API :: string
  STATS_API :: string
  IMAGES_API :: string
  POKE_API :: string

definition MICROSERVICES :: "gateway_cfg \<Rightarrow> string js_object" where
  "MICROSERVICES cfg =
     [(''SEARCH_API'', SEARCH_API cfg),
      (''STATS_API'', STATS_API cfg),
      (''IMAGES_API'', IMAGES_API cfg),
      (''POKE_API'', POKE_API cfg)]"

subsection \<open>\<^verbatim>\<open>createProxy\<close>\<close>

text \<open>
  The inbound request as Express presents it: \<^verbatim>\<open>originalUrl\<close> is the path together with the
  query string, \<^verbatim>\<open>query\<close> is the same query string parsed, \<^verbatim>\<open>headers\<close> has lower-case names.
  The request configuration handed to \<^verbatim>\<open>axios\<close> may hold \<^verbatim>\<open>undefined\<close> as a header value
  (\<open>None\<close>).
\<close>

record request =
  req_method :: string
  req_originalUrl :: string
  req_query :: "string js_object"
  req_body :: json
  req_headers :: "string js_object"

record axios_config =
  cfg_method :: string
  cfg_url :: string
  cfg_data :: json
  cfg_params :: "string js_object"
  cfg_headers :: "string option js_object"
  cfg_timeout :: nat

type_synonym axios = "axios_config \<Rightarrow> axios_response outcome"

definition proxy_config :: "gateway_cfg \<Rightarrow> string \<Rightarrow> request \<Rightarrow> axios_config" where
  "proxy_config cfg serviceName req =
     (let serviceUrl = map_of (MICROSERVICES cfg) serviceName;
          targetUrl = template serviceUrl @ req_originalUrl req
      in \<lparr>cfg_method = req_method req,
          cfg_url = targetUrl,
          cfg_data = req_body req,
          cfg_params = req_query req,
          cfg_headers =
            set_prop ''host'' None (copy_props (map (\<lambda>(k, v). (k, Some v)) (req_headers req)) []),
          cfg_timeout = 30000\<rparr>)"

record proxy_failure =
  pf_error :: string
  pf_service :: string
  pf_message :: string
  pf_timestamp :: string

datatype proxy_body = Relayed json | Unavailable proxy_failure

text \<open>
  The handler returned by \<^verbatim>\<open>createProxy(serviceName, basePath)\<close>; \<open>now\<close> is the value of
  \<^verbatim>\<open>new Date().toISOString()\<close>. The result holds the request configuration given to
  \<^verbatim>\<open>axios\<close> and the reply. \<^verbatim>\<open>error.response?.status || 503\<close> falls back to 503 when there
  is no response and when the status is the falsy number 0.
\<close>

definition createProxy ::
  "gateway_cfg \<Rightarrow> string \<Rightarrow> axios \<Rightarrow> string \<Rightarrow> string \<Rightarrow> request \<Rightarrow> axios_config \<times> proxy_body http_response" where
  "createProxy cfg now ax serviceName basePath req =
     (let config = proxy_config cfg serviceName req
      in (config,
          (case ax config of
             Resolves response \<Rightarrow>
               \<lparr>status_code = resp_status response, body = Relayed (resp_data response)\<rparr>
           | Rejects error \<Rightarrow>
               (let errorMessage =
                      (case err_response error of
                         Some r \<Rightarrow>
                           ''Service error: '' @ show_nat (resp_status r) @ '' - '' @ resp_statusText r
                       | None \<Rightarrow> ''Network error: '' @ err_message error);
                    statusCode =
                      (case err_response error of
                         Some r \<Rightarrow> if resp_status r = 0 then 503 else resp_status r
                       | None \<Rightarrow> 503)
                in \<lparr>status_code = statusCode,
                    body = Unavailable
                      \<lparr>pf_error = ''Service unavailable'',
                       pf_service = serviceName,
                       pf_message = errorMessage,
                       pf_timestamp = now\<rparr>\<rparr>))))"

text \<open>
  What \<^verbatim>\<open>axios\<close> (1.x) puts on the wire for a request configuration. Its \<^verbatim>\<open>buildURL\<close>
  serialises \<^verbatim>\<open>params\<close> as \<^verbatim>\<open>key=value\<close> pairs joined by \<^verbatim>\<open>&\<close> and, when the result is not
  empty, cuts the URL at a \<^verbatim>\<open>#\<close> and appends the pairs after \<^verbatim>\<open>?\<close>, or after \<^verbatim>\<open>&\<close> if the URL
  already has a \<^verbatim>\<open>?\<close>. Its header object drops the entries whose value is \<^verbatim>\<open>undefined\<close>. The
  percent-encoding of keys and values is the parameter \<open>encode\<close>.
\<close>

fun join_amp :: "string list \<Rightarrow> string" where
  "join_amp [] = []"
| "join_amp [p] = p"
| "join_amp (p # q # ps) = p @ ''&'' @ join_amp (q # ps)"

definition serialize_params :: "(string \<Rightarrow> string) \<Rightarrow> string js_object \<Rightarrow> string" where
  "serialize_params encode params = join_amp (map (\<lambda>(k, v). encode k @ ''='' @ encode v) params)"

definition buildURL :: "(string \<Rightarrow> string) \<Rightarrow> string \<Rightarrow> string js_object \<Rightarrow> string" where
  "buildURL encode url params =
     (let serializedParams = serialize_params encode params
      in if serializedParams = [] then url
         else (let url' = takeWhile (\<lambda>c. c \<noteq> CHR ''#'') url
               in url' @ (if CHR ''?'' \<in> set url' then ''&'' else ''?'') @ serializedParams))"

definition effective_url :: "(string \<Rightarrow> string) \<Rightarrow> axios_config \<Rightarrow> string" where
  "effective_url encode config = buildURL encode (cfg_url config) (cfg_params config)"

fun defined_props :: "'v option js_object \<Rightarrow> 'v js_object" where
  "defined_props [] = []"
| "defined_props ((k, None) # ps) = defined_props ps"
| "defined_props ((k, Some v) # ps) = (k, v) # defined_props ps"

definition sent_headers :: "axios_config \<Rightarrow> string js_object" where
  "sent_headers config = defined_props (cfg_headers config)"

subsection \<open>\<^verbatim>\<open>GET /status\<close>\<close>

text \<open>
  The values the handler reads from the process and the clock: \<^verbatim>\<open>process.uptime()\<close>,
  \<^verbatim>\<open>process.memoryUsage()\<close>, \<^verbatim>\<open>new Date().toISOString()\<close> and the two readings of
  \<^verbatim>\<open>Date.now()\<close>.
\<close>

record runtime =
  rt_uptime :: real
  rt_memoryUsage :: json
  rt_timestamp :: string
  rt_startTime :: int
  rt_endTime :: int

record gateway_entry =
  gw_status :: string
  gw_uptime :: real
  gw_memory :: json
  gw_timestamp :: string

text \<open>An entry of \<^verbatim>\<open>status.microservices\<close>; a field the object does not have is \<open>None\<close>.\<close>

record service_health =
  svc_status :: string
  svc_url :: string
  svc_response_time :: "string option"
  svc_data :: "json option"
  svc_error :: "string option"
  svc_error_code :: "string option"

record status_report =
  st_gateway :: gateway_entry
  st_microservices :: "service_health js_object"
  overall_status :: string
  check_duration_ms :: int

text \<open>
  The body of the callback mapped over \<^verbatim>\<open>Object.entries(MICROSERVICES)\<close>, from the point
  where its request has settled: it stores the entry of its service.
\<close>

definition healthCheck ::
  "axios_get \<Rightarrow> string \<times> string \<Rightarrow> service_health js_object \<Rightarrow> service_health js_object" where
  "healthCheck get entry microservices =
     (case entry of (serviceName, serviceUrl) \<Rightarrow>
        (case get (serviceUrl @ ''/health'') 5000 of
           Resolves response \<Rightarrow>
             set_prop (toLowerCase serviceName)
               \<lparr>svc_status = ''healthy'',
                svc_url = serviceUrl,
                svc_response_time =
                  Some (case map_of (resp_headers response) ''x-response-time'' of
                          None \<Rightarrow> ''unknown''
                        | Some t \<Rightarrow> if t = [] then ''unknown'' else t),
                svc_data = Some (resp_data response),
                svc_error = None,
                svc_error_code = None\<rparr>
               microservices
         | Rejects error \<Rightarrow>
             set_prop (toLowerCase serviceName)
               \<lparr>svc_status = ''unhealthy'',
                svc_url = serviceUrl,
                svc_response_time = None,
                svc_data = None,
                svc_error = Some (err_message error),
                svc_error_code = err_code error\<rparr>
               microservices))"

text \<open>
  The callbacks run to their stores in the order in which their requests settle;
  \<^verbatim>\<open>Promise.all\<close> resolves once every one of them has finished (none of them rejects, each
  catches its own error), and never if one stays pending.
\<close>

definition run_checks ::
  "axios_get \<Rightarrow> string js_object \<Rightarrow> nat list \<Rightarrow> service_health js_object option" where
  "run_checks get entries order =
     (if list_all (\<lambda>i. i \<in> set order) [0..<length entries]
      then Some (fold (\<lambda>i ms. if i < length entries then healthCheck get (entries ! i) ms else ms)
                   order [])
      else None)"

definition status_handler ::
  "gateway_cfg \<Rightarrow> runtime \<Rightarrow> axios_get \<Rightarrow> nat list \<Rightarrow> status_report http_response option" where
  "status_handler cfg rt get order =
     (case run_checks get (MICROSERVICES cfg) order of
        None \<Rightarrow> None
      | Some microservices \<Rightarrow>
          (let totalLatency = rt_endTime rt - rt_startTime rt;
               allHealthy = list_all (\<lambda>service. svc_status service = ''healthy'') (map snd microservices);
               status =
                 \<lparr>st_gateway =
                    \<lparr>gw_status = ''healthy'',
                     gw_uptime = rt_uptime rt,
                     gw_memory = rt_memoryUsage rt,
                     gw_timestamp = rt_timestamp rt\<rparr>,
                  st_microservices = microservices,
                  overall_status = (if allHealthy then ''healthy'' else ''degraded''),
                  check_duration_ms = totalLatency\<rparr>;
               responseCode = (if allHealthy then 200 else 503)
           in Some \<lparr>status_code = responseCode, body = status\<rparr>))"

section \<open>Derived notions used in the statements\<close>

text \<open>The word the merge step writes into the status map for a settled result.\<close>

definition settled_status :: "'a settled \<Rightarrow> string" where
  "settled_status s = (case s of Fulfilled v \<Rightarrow> ''success'' | Rejected e \<Rightarrow> ''error'')"

text \<open>
  The entry that the health callback of a registry entry stores, the key it stores it under,
  and one step of the run: the callback of the promise at index \<open>i\<close> finishing.
\<close>

definition health_entry :: "axios_get \<Rightarrow> string \<times> string \<Rightarrow> service_health" where
  "health_entry get entry =
     (case get (snd entry @ ''/health'') 5000 of
        Resolves response \<Rightarrow>
          \<lparr>svc_status = ''healthy'',
           svc_url = snd entry,
           svc_response_time =
             Some (case map_of (resp_headers response) ''x-response-time'' of
                     None \<Rightarrow> ''unknown''
                   | Some t \<Rightarrow> if t = [] then ''unknown'' else t),
           svc_data = Some (resp_data response),
           svc_error = None,
           svc_error_code = None\<rparr>
      | Rejects error \<Rightarrow>
          \<lparr>svc_status = ''unhealthy'',
           svc_url = snd entry,
           svc_response_time = None,
           svc_data = None,
           svc_error = Some (err_message error),
           svc_error_code = err_code error\<rparr>)"

definition service_key :: "string \<times> string \<Rightarrow> string" where
  "service_key entry = toLowerCase (fst entry)"

definition check_step :: "axios_get \<Rightarrow> string js_object \<Rightarrow> nat \<Rightarrow> service_health js_object \<Rightarrow> service_health js_object" where
  "check_step get entries i ms = (if i < length entries then healthCheck get (entries ! i) ms else ms)"

section \<open>Example inputs\<close>

text \<open>
  The default configuration of the search service, a backend world in which all three
  lookups of \<^verbatim>\<open>pikachu\<close> answer, and one in which the stats lookup times out. The payload
  of the data backend has a \<^verbatim>\<open>stats\<close> field of its own, as the real one does.
\<close>

definition example_search_cfg :: search_cfg where
  "example_search_cfg =
     \<lparr>POKE_API_URL = ''http://localhost:3004'',
      STATS_API_URL = ''http://localhost:3002'',
      IMAGES_API_URL = ''http://localhost:3003''\<rparr>"

definition ok_response :: "json \<Rightarrow> axios_response" where
  "ok_response d = \<lparr>resp_status = 200, resp_statusText = ''OK'', resp_headers = [], resp_data = d\<rparr>"

definition timeout_error :: js_error where
  "timeout_error =
     \<lparr>err_message = ''timeout of 5000ms exceeded'', err_code = Some ''ECONNABORTED'',
      err_response = None\<rparr>"

definition pikachu_data :: json where
  "pikachu_data =
     JObj [(''id'', JNum 25), (''name'', JStr ''pikachu''),
           (''stats'', JArr [JObj [(''name'', JStr ''hp''), (''base_stat'', JNum 35)]])]"

definition pikachu_stats :: json where
  "pikachu_stats = JObj [(''total'', JNum 320), (''hp'', JNum 35)]"

definition pikachu_image :: json where
  "pikachu_image = JObj [(''front_default'', JStr ''https://img/25.png'')]"

definition backends_up :: axios_get where
  "backends_up url t =
     (if url = ''http://localhost:3004/api/pokemon/pikachu'' then Resolves (ok_response pikachu_data)
      else if url = ''http://localhost:3002/api/stats/pikachu'' then Resolves (ok_response pikachu_stats)
      else if url = ''http://localhost:3003/api/images/pikachu'' then Resolves (ok_response pikachu_image)
      else Rejects timeout_error)"

definition stats_down :: axios_get where
  "stats_down url t =
     (if url = ''http://localhost:3002/api/stats/pikachu'' then Rejects timeout_error
      else backends_up url t)"

text \<open>
  The default registry of the gateway, a request for the search route as Express parses
  it, two failing backends (connection refused, and an answer with status 404), and health
  endpoints that all answer or all refuse.
\<close>

definition example_gateway_cfg :: gateway_cfg where
  "example_gateway_cfg =
     \<lparr>SEARCH_API = ''http://localhost:3001'',
      STATS_API = ''http://localhost:3002'',
      IMAGES_API = ''http://localhost:3003'',
      POKE_API = ''http://localhost:3004''\<rparr>"

definition search_request :: request where
  "search_request =
     \<lparr>req_method = ''GET'',
      req_originalUrl = ''/poke/search?pokemon_name=pikachu'',
      req_query = [(''pokemon_name'', ''pikachu'')],
      req_body = JObj [],
      req_headers = [(''host'', ''localhost:3000''), (''accept'', ''application/json'')]\<rparr>"

definition refused_error :: js_error where
  "refused_error =
     \<lparr>err_message = ''connect ECONNREFUSED 127.0.0.1:3001'', err_code = Some ''ECONNREFUSED'',
      err_response = None\<rparr>"

definition not_found_error :: js_error where
  "not_found_error =
     \<lparr>err_message = ''Request failed with status code 404'', err_code = Some ''ERR_BAD_REQUEST'',
      err_response =
        Some \<lparr>resp_status = 404, resp_statusText = ''Not Found'', resp_headers = [],
              resp_data = JObj [(''error'', JStr ''Pokemon not found'')]\<rparr>\<rparr>"

definition lookups_not_found :: axios_get where
  "lookups_not_found url t = Rejects not_found_error"

definition backend_refuses :: axios where
  "backend_refuses config = Rejects refused_error"

definition backend_not_found :: axios where
  "backend_not_found config = Rejects not_found_error"

definition example_runtime :: runtime where
  "example_runtime =
     \<lparr>rt_uptime = 12, rt_memoryUsage = JObj [(''rss'', JNum 51200000)],
      rt_timestamp = ''2024-01-15T10:00:00.000Z'', rt_startTime = 1705312800000,
      rt_endTime = 1705312800042\<rparr>"

definition services_up :: axios_get where
  "services_up url t =
     Resolves \<lparr>resp_status = 200, resp_statusText = ''OK'',
               resp_headers = [(''x-response-time'', ''3ms'')],
               resp_data = JObj [(''status'', JStr ''healthy'')]\<rparr>"

definition services_down :: axios_get where
  "services_down url t = Rejects refused_error"

section \<open>Objects and schedules\<close>

lemma map_of_set_prop: "map_of (set_prop k v ps) = (map_of ps)(k \<mapsto> v)"
  by (induction ps) (auto simp: fun_eq_iff)

lemma keys_set_prop:
  "map fst (set_prop k v ps) = (if k \<in> set (map fst ps) then map fst ps else map fst ps @ [k])"
  by (induction ps) force+

lemma distinct_set_prop: "distinct (map fst ps) \<Longrightarrow> distinct (map fst (set_prop k v ps))"
  by (simp add: keys_set_prop)

lemma length_fold_fill_slot: "length (fold (fill_slot ps) order slots) = length slots"
  by (induction order arbitrary: slots) (simp_all add: fill_slot_def)

lemma nth_fold_fill_slot:
  "j < length slots \<Longrightarrow>
   fold (fill_slot ps) order slots ! j =
     (if j \<in> set order then Some (settle (ps ! j)) else slots ! j)"
proof (induction order arbitrary: slots)
  case Nil
  then show ?case by simp
next
  case (Cons i order)
  have len: "j < length (fill_slot ps i slots)"
    using Cons.prems by (simp add: fill_slot_def)
  show ?case
    using Cons.IH [OF len] Cons.prems
    by (auto simp: fill_slot_def nth_list_update)
qed

lemma allSettled_valid:
  assumes "valid_schedule (length ps) order"
  shows "allSettled order ps = Some (map settle ps)"
proof -
  let ?slots = "fold (fill_slot ps) order (replicate (length ps) None)"
  have len: "length ?slots = length ps"
    by (simp add: length_fold_fill_slot)
  have nth: "?slots ! j = Some (settle (ps ! j))" if "j < length ps" for j
    using that assms nth_fold_fill_slot [of j "replicate (length ps) None" ps order]
    by (simp add: valid_schedule_def)
  have eq: "?slots = map (\<lambda>p. Some (settle p)) ps"
    by (rule nth_equalityI) (simp_all add: len nth)
  show ?thesis
    unfolding allSettled_def Let_def eq
    by (simp add: list_all_iff comp_def)
qed

lemma set_prop_fresh: "k \<notin> set (map fst ps) \<Longrightarrow> set_prop k v ps = ps @ [(k, v)]"
  by (induction ps) auto

lemma copy_props_append:
  "distinct (map fst (acc @ props)) \<Longrightarrow> copy_props props acc = acc @ props"
proof (induction props arbitrary: acc)
  case Nil
  then show ?case by (simp add: copy_props_def)
next
  case (Cons p props)
  obtain k v where p: "p = (k, v)" by (cases p)
  have fresh: "k \<notin> set (map fst acc)"
    using Cons.prems p by auto
  have "copy_props (p # props) acc = copy_props props (set_prop k v acc)"
    by (simp add: copy_props_def p)
  also have "\<dots> = copy_props props (acc @ [(k, v)])"
    using fresh by (simp add: set_prop_fresh)
  also have "\<dots> = (acc @ [(k, v)]) @ props"
    using Cons.prems p by (intro Cons.IH) simp
  finally show ?case by (simp add: p)
qed

lemma copy_props_distinct: "distinct (map fst props) \<Longrightarrow> copy_props props [] = props"
  using copy_props_append [of "[]" props] by simp

lemma defined_props_Some: "defined_props (map (\<lambda>(k, v). (k, Some v)) ps) = ps"
  by (induction ps) auto

lemma filter_other_keys:
  "h \<notin> set (map fst ps) \<Longrightarrow> filter (\<lambda>(k, v). k \<noteq> h) ps = ps"
  by (induction ps) auto

lemma defined_props_scrub:
  "distinct (map fst ps) \<Longrightarrow>
   defined_props (set_prop h None (map (\<lambda>(k, v). (k, Some v)) ps)) =
     filter (\<lambda>(k, v). k \<noteq> h) ps"
proof (induction ps)
  case Nil
  then show ?case by simp
next
  case (Cons p ps)
  obtain k v where p: "p = (k, v)" by (cases p)
  show ?case
  proof (cases "k = h")
    case True
    with Cons.prems p have "h \<notin> set (map fst ps)" by auto
    then show ?thesis
      using True p by (simp add: defined_props_Some filter_other_keys)
  next
    case False
    with Cons p show ?thesis by simp
  qed
qed

lemma fst_createProxy: "fst (createProxy cfg now ax serviceName basePath req) = proxy_config cfg serviceName req"
  by (simp add: createProxy_def Let_def)

section \<open>Properties of the search service\<close>

text \<open>
  A lookup sends one request, to the URL built from the name as a string, and settles with
  the payload of the answer or with the error of the call; what it settles with does not
  depend on the requests sent before.
\<close>

lemma fetchPokemonData_string:
  "to_string v = Some name \<Longrightarrow>
   fetchPokemonData cfg get v sent =
     (case get (pokemon_data_url cfg name) 5000 of
        Resolves response \<Rightarrow> Resolves (resp_data response)
      | Rejects error \<Rightarrow> Rejects error,
      sent @ [pokemon_data_url cfg name])"
  by (cases "get (pokemon_data_url cfg name) 5000")
     (simp_all add: fetchPokemonData_def http_get_def measureExecutionTime_def)

lemma fetchPokemonStats_string:
  "to_string v = Some name \<Longrightarrow>
   fetchPokemonStats cfg get v sent =
     (case get (pokemon_stats_url cfg name) 5000 of
        Resolves response \<Rightarrow> Resolves (resp_data response)
      | Rejects error \<Rightarrow> Rejects error,
      sent @ [pokemon_stats_url cfg name])"
  by (cases "get (pokemon_stats_url cfg name) 5000")
     (simp_all add: fetchPokemonStats_def http_get_def measureExecutionTime_def)

lemma fetchPokemonImage_string:
  "to_string v = Some name \<Longrightarrow>
   fetchPokemonImage cfg get v sent =
     (case get (pokemon_image_url cfg name) 5000 of
        Resolves response \<Rightarrow> Resolves (resp_data response)
      | Rejects error \<Rightarrow> Rejects error,
      sent @ [pokemon_image_url cfg name])"
  by (cases "get (pokemon_image_url cfg name) 5000")
     (simp_all add: fetchPokemonImage_def http_get_def measureExecutionTime_def)

lemmas fetch_string = fetchPokemonData_string fetchPokemonStats_string fetchPokemonImage_string

lemma fetch_result_any_log:
  "fst (fetchPokemonData cfg get v sent) = fst (fetchPokemonData cfg get v sent')"
  "fst (fetchPokemonStats cfg get v sent) = fst (fetchPokemonStats cfg get v sent')"
  "fst (fetchPokemonImage cfg get v sent) = fst (fetchPokemonImage cfg get v sent')"
  by (cases "to_string v";
      simp add: fetchPokemonData_def fetchPokemonStats_def fetchPokemonImage_def http_get_def)+

text \<open>
  With a truthy name that converts to a string and a schedule under which all three
  requests settle, the handler sends the three requests and answers 200 with the merge of
  the three settled results, whatever the order.
\<close>

lemma search_handler_valid:
  assumes "truthy v" and "to_string v = Some name" and "valid_schedule 3 order"
  shows "search_handler cfg get order (Some v) sent =
     Some (sent @ [pokemon_data_url cfg name, pokemon_stats_url cfg name,
                   pokemon_image_url cfg name],
           \<lparr>status_code = 200,
            body = Search_body
              (merge_results v
                 (settle (fst (fetchPokemonData cfg get v [])))
                 (settle (fst (fetchPokemonStats cfg get v [])))
                 (settle (fst (fetchPokemonImage cfg get v []))))\<rparr>)"
proof -
  let ?d = "fst (fetchPokemonData cfg get v [])"
  let ?s = "fst (fetchPokemonStats cfg get v [])"
  let ?i = "fst (fetchPokemonImage cfg get v [])"
  have d: "fetchPokemonData cfg get v sent = (?d, sent @ [pokemon_data_url cfg name])"
    by (simp add: fetch_string [OF assms(2)])
  have s: "fetchPokemonStats cfg get v (sent @ [pokemon_data_url cfg name]) =
      (?s, sent @ [pokemon_data_url cfg name, pokemon_stats_url cfg name])"
    by (simp add: fetch_string [OF assms(2)])
  have i: "fetchPokemonImage cfg get v
        (sent @ [pokemon_data_url cfg name, pokemon_stats_url cfg name]) =
      (?i, sent @ [pokemon_data_url cfg name, pokemon_stats_url cfg name,
                   pokemon_image_url cfg name])"
    by (simp add: fetch_string [OF assms(2)])
  have "valid_schedule (length [?d, ?s, ?i]) order"
    using assms(3) by (simp add: numeral_3_eq_3)
  then have "allSettled order [?d, ?s, ?i] = Some (map settle [?d, ?s, ?i])"
    by (rule allSettled_valid)
  then have "pokemon_search cfg get order v sent =
      Some (Resolves (merge_results v (settle ?d) (settle ?s) (settle ?i)),
            sent @ [pokemon_data_url cfg name, pokemon_stats_url cfg name,
                    pokemon_image_url cfg name])"
    by (simp add: pokemon_search_def assms(2) d s i)
  then show ?thesis
    using assms(1) by (simp add: search_handler_def measureExecutionTime_def)
qed

lemma search_handler_string:
  assumes "pokemon_name \<noteq> []" and "valid_schedule 3 order"
  shows "search_handler cfg get order (Some (QStr pokemon_name)) sent =
     Some (sent @ [pokemon_data_url cfg pokemon_name, pokemon_stats_url cfg pokemon_name,
                   pokemon_image_url cfg pokemon_name],
           \<lparr>status_code = 200,
            body = Search_body
              (merge_results (QStr pokemon_name)
                 (settle (fst (fetchPokemonData cfg get (QStr pokemon_name) [])))
                 (settle (fst (fetchPokemonStats cfg get (QStr pokemon_name) [])))
                 (settle (fst (fetchPokemonImage cfg get (QStr pokemon_name) []))))\<rparr>)"
  using assms by (intro search_handler_valid) simp_all

lemma status_merge_results:
  "agg_status (merge_results n p s i) =
     [(''poke_api'', settled_status p), (''stats_api'', settled_status s),
      (''images_api'', settled_status i)]"
  by (cases p; cases s; cases i)
     (simp_all add: merge_results_def merge_poke_def merge_stats_def merge_image_def
        settled_status_def)

lemma settled_status_cases: "settled_status s = ''success'' \<or> settled_status s = ''error''"
  by (cases s) (simp_all add: settled_status_def)

lemmas merge_defs = merge_results_def merge_poke_def merge_stats_def merge_image_def

lemma data_merge_results_name:
  "agg_data (merge_results n p s i) = agg_data (merge_results n' p s i)"
  by (cases p; cases s; cases i) (simp_all add: merge_defs)

lemma truthy_reply_not_400:
  assumes "truthy v" and "search_handler cfg get order (Some v) sent = Some (sent', reply)"
  shows "status_code reply = 200 \<or> status_code reply = 500"
proof (cases "pokemon_search cfg get order v sent")
  case None
  with assms show ?thesis by (simp add: search_handler_def)
next
  case (Some run)
  obtain outcome sent'' where run: "run = (outcome, sent'')" by (cases run)
  show ?thesis
    using assms Some run
    by (cases outcome)
       (auto simp: search_handler_def measureExecutionTime_def internal_error_def)
qed

lemma search_example_run:
  "search_handler example_search_cfg stats_down [2, 0, 1] (Some (QStr ''pikachu'')) [] =
     Some ([''http://localhost:3004/api/pokemon/pikachu'',
            ''http://localhost:3002/api/stats/pikachu'',
            ''http://localhost:3003/api/images/pikachu''],
           \<lparr>status_code = 200,
            body = Search_body
              \<lparr>agg_name = QStr ''pikachu'',
               agg_status = [(''poke_api'', ''success''), (''stats_api'', ''error''),
                             (''images_api'', ''success'')],
               agg_data =
                 [(''id'', JNum 25), (''name'', JStr ''pikachu''),
                  (''stats'', JArr [JObj [(''name'', JStr ''hp''), (''base_stat'', JNum 35)]]),
                  (''stats_error'', JStr ''timeout of 5000ms exceeded''),
                  (''image'', JObj [(''front_default'', JStr ''https://img/25.png'')])]\<rparr>\<rparr>)"
  by code_simp

lemma search_example_object_key:
  "search_handler example_search_cfg backends_up [0, 1, 2]
     (Some (QObj [(''toString'', QStr ''x'')])) [] =
     Some ([], \<lparr>status_code = 500,
                body = Error_body [(''error'', ''Internal server error''),
                                   (''message'', ''Cannot convert object to primitive value'')]\<rparr>)"
  by code_simp

lemma example_schedules:
  "valid_schedule 3 [2, 0, 1]" "valid_schedule 3 [0, 1, 2]" "valid_schedule 3 [1, 2, 0]"
  "valid_schedule 4 [3, 1, 0, 2]" "valid_schedule 4 [0, 1, 2, 3]"
  by code_simp+

lemma example_lookups:
  "backends_up (pokemon_data_url example_search_cfg ''pikachu'') 5000 =
     Resolves (ok_response pikachu_data)"
  "backends_up (pokemon_stats_url example_search_cfg ''pikachu'') 5000 =
     Resolves (ok_response pikachu_stats)"
  by (simp_all add: backends_up_def pokemon_data_url_def pokemon_stats_url_def
        example_search_cfg_def)

text \<open>
  C1. For every non-empty key and every combination of failing backends (the network
  \<open>get\<close> is arbitrary), under every schedule in which the three requests settle, the search
  handler replies; the reply has status 200 and carries an aggregated response whose status
  map has exactly the three entries \<^verbatim>\<open>poke_api\<close>, \<^verbatim>\<open>stats_api\<close>, \<^verbatim>\<open>images_api\<close>, each of them
  \<^verbatim>\<open>success\<close> or \<^verbatim>\<open>error\<close>. No failure of a backend leads to any other reply.
\<close>

theorem search_status_complete:
  assumes "pokemon_name \<noteq> []" and "valid_schedule 3 order"
  shows "\<exists>requested r.
           search_handler cfg get order (Some (QStr pokemon_name)) sent =
             Some (requested, \<lparr>status_code = 200, body = Search_body r\<rparr>) \<and>
           map fst (agg_status r) = [''poke_api'', ''stats_api'', ''images_api''] \<and>
           list_all (\<lambda>(backend, s). s = ''success'' \<or> s = ''error'') (agg_status r)"
  using search_handler_string [OF assms, of cfg get sent]
  by (simp add: status_merge_results settled_status_cases)

text \<open>The statement at the key \<^verbatim>\<open>pikachu\<close>, with the stats backend timing out and the image
  request settling first.\<close>

theorem search_status_complete_witness:
  "''pikachu'' \<noteq> [] \<and> valid_schedule 3 [2, 0, 1] \<and>
   (\<exists>requested r.
      search_handler example_search_cfg stats_down [2, 0, 1] (Some (QStr ''pikachu'')) [] =
        Some (requested, \<lparr>status_code = 200, body = Search_body r\<rparr>) \<and>
      map fst (agg_status r) = [''poke_api'', ''stats_api'', ''images_api''] \<and>
      list_all (\<lambda>(backend, s). s = ''success'' \<or> s = ''error'') (agg_status r))"
proof -
  have name: "''pikachu'' \<noteq> []" by simp
  have sched: "valid_schedule 3 [2, 0, 1]" by (rule example_schedules)
  show ?thesis
    by (intro conjI name sched search_status_complete [OF name sched])
qed

text \<open>
  C2, as stated, at the stats backend: the claim names the error field after the
  backend's name in the status map, which for the stats backend would be
  \<^verbatim>\<open>stats_api_error\<close>. When the stats lookup times out the status map records \<^verbatim>\<open>error\<close> under
  \<^verbatim>\<open>stats_api\<close>, and the data has no field \<^verbatim>\<open>stats_api_error\<close>: the message is under
  \<^verbatim>\<open>stats_error\<close>.
\<close>

theorem error_field_name_counterexample:
  "search_handler example_search_cfg stats_down [0, 1, 2] (Some (QStr ''pikachu'')) [] =
     Some ([''http://localhost:3004/api/pokemon/pikachu'',
            ''http://localhost:3002/api/stats/pikachu'',
            ''http://localhost:3003/api/images/pikachu''],
           \<lparr>status_code = 200,
            body = Search_body
              (merge_results (QStr ''pikachu'') (Fulfilled pikachu_data) (Rejected timeout_error)
                 (Fulfilled pikachu_image))\<rparr>) \<and>
   map_of (agg_status (merge_results (QStr ''pikachu'') (Fulfilled pikachu_data)
                         (Rejected timeout_error) (Fulfilled pikachu_image))) ''stats_api'' =
     Some ''error'' \<and>
   map_of (agg_data (merge_results (QStr ''pikachu'') (Fulfilled pikachu_data)
                       (Rejected timeout_error) (Fulfilled pikachu_image)))
     (''stats_api'' @ ''_error'') = None \<and>
   map_of (agg_data (merge_results (QStr ''pikachu'') (Fulfilled pikachu_data)
                       (Rejected timeout_error) (Fulfilled pikachu_image))) ''stats_error'' =
     Some (JStr ''timeout of 5000ms exceeded'')"
  by code_simp

text \<open>
  C2, amended. For each of the three backends and each outcome of its call, the status
  map records \<^verbatim>\<open>success\<close> or \<^verbatim>\<open>error\<close> under the backend's name, and the data is built in
  three steps. First the poke step: on success the properties of the poke payload are
  spread into the empty data, on failure the data is the single field \<^verbatim>\<open>poke_api_error\<close>
  with the failure message. Then the stats step assigns exactly one field: \<^verbatim>\<open>stats\<close> with
  the stats payload on success, \<^verbatim>\<open>stats_error\<close> with the failure message on failure. Then
  the image step assigns exactly one field: \<^verbatim>\<open>image\<close> with the image payload on success,
  \<^verbatim>\<open>image_error\<close> with the failure message on failure. Only the first of the three error
  fields is the name in the status map followed by \<^verbatim>\<open>_error\<close>. So every property of a
  successful poke payload is in the data with its value, except under the one key that the
  stats step and the one key that the image step of the same run assign.
\<close>

theorem merge_policy:
  assumes "pokemon_name \<noteq> []" and "valid_schedule 3 order"
  shows "\<exists>requested r.
           search_handler cfg get order (Some (QStr pokemon_name)) sent =
             Some (requested, \<lparr>status_code = 200, body = Search_body r\<rparr>) \<and>
           agg_status r =
             [(''poke_api'',
               case get (pokemon_data_url cfg pokemon_name) 5000 of
                 Resolves response \<Rightarrow> ''success'' | Rejects error \<Rightarrow> ''error''),
              (''stats_api'',
               case get (pokemon_stats_url cfg pokemon_name) 5000 of
                 Resolves response \<Rightarrow> ''success'' | Rejects error \<Rightarrow> ''error''),
              (''images_api'',
               case get (pokemon_image_url cfg pokemon_name) 5000 of
                 Resolves response \<Rightarrow> ''success'' | Rejects error \<Rightarrow> ''error'')] \<and>
           agg_data r =
             (case get (pokemon_image_url cfg pokemon_name) 5000 of
                Resolves response \<Rightarrow> set_prop ''image'' (resp_data response)
              | Rejects error \<Rightarrow> set_prop ''image_error'' (JStr (err_message error)))
               ((case get (pokemon_stats_url cfg pokemon_name) 5000 of
                   Resolves response \<Rightarrow> set_prop ''stats'' (resp_data response)
                 | Rejects error \<Rightarrow> set_prop ''stats_error'' (JStr (err_message error)))
                  (case get (pokemon_data_url cfg pokemon_name) 5000 of
                     Resolves response \<Rightarrow> spread [] (resp_data response)
                   | Rejects error \<Rightarrow> [(''poke_api_error'', JStr (err_message error))])) \<and>
           (case get (pokemon_data_url cfg pokemon_name) 5000 of
              Resolves response \<Rightarrow>
                map_of (agg_status r) ''poke_api'' = Some ''success'' \<and>
                (\<forall>k. k \<noteq> (case get (pokemon_stats_url cfg pokemon_name) 5000 of
                             Resolves response \<Rightarrow> ''stats'' | Rejects error \<Rightarrow> ''stats_error'') \<and>
                     k \<noteq> (case get (pokemon_image_url cfg pokemon_name) 5000 of
                             Resolves response \<Rightarrow> ''image'' | Rejects error \<Rightarrow> ''image_error'') \<longrightarrow>
                     map_of (agg_data r) k = map_of (spread [] (resp_data response)) k)
            | Rejects error \<Rightarrow>
                map_of (agg_status r) ''poke_api'' = Some ''error'' \<and>
                map_of (agg_data r) ''poke_api_error'' = Some (JStr (err_message error))) \<and>
           (case get (pokemon_stats_url cfg pokemon_name) 5000 of
              Resolves response \<Rightarrow>
                map_of (agg_status r) ''stats_api'' = Some ''success'' \<and>
                map_of (agg_data r) ''stats'' = Some (resp_data response)
            | Rejects error \<Rightarrow>
                map_of (agg_status r) ''stats_api'' = Some ''error'' \<and>
                map_of (agg_data r) ''stats_error'' = Some (JStr (err_message error))) \<and>
           (case get (pokemon_image_url cfg pokemon_name) 5000 of
              Resolves response \<Rightarrow>
                map_of (agg_status r) ''images_api'' = Some ''success'' \<and>
                map_of (agg_data r) ''image'' = Some (resp_data response)
            | Rejects error \<Rightarrow>
                map_of (agg_status r) ''images_api'' = Some ''error'' \<and>
                map_of (agg_data r) ''image_error'' = Some (JStr (err_message error)))"
proof -
  let ?P = "get (pokemon_data_url cfg pokemon_name) 5000"
  let ?S = "get (pokemon_stats_url cfg pokemon_name) 5000"
  let ?I = "get (pokemon_image_url cfg pokemon_name) 5000"
  let ?r = "merge_results (QStr pokemon_name)
              (settle (fst (fetchPokemonData cfg get (QStr pokemon_name) [])))
              (settle (fst (fetchPokemonStats cfg get (QStr pokemon_name) [])))
              (settle (fst (fetchPokemonImage cfg get (QStr pokemon_name) [])))"
  have conv: "to_string (QStr pokemon_name) = Some pokemon_name"
    by simp
  note fetch = fetch_string [OF conv]
  have status: "agg_status ?r =
             [(''poke_api'', case ?P of Resolves response \<Rightarrow> ''success'' | Rejects error \<Rightarrow> ''error''),
              (''stats_api'', case ?S of Resolves response \<Rightarrow> ''success'' | Rejects error \<Rightarrow> ''error''),
              (''images_api'', case ?I of Resolves response \<Rightarrow> ''success'' | Rejects error \<Rightarrow> ''error'')]"
    by (cases ?P; cases ?S; cases ?I)
       (simp_all add: status_merge_results settled_status_def settle_def fetch)
  have data: "agg_data ?r =
             (case ?I of
                Resolves response \<Rightarrow> set_prop ''image'' (resp_data response)
              | Rejects error \<Rightarrow> set_prop ''image_error'' (JStr (err_message error)))
               ((case ?S of
                   Resolves response \<Rightarrow> set_prop ''stats'' (resp_data response)
                 | Rejects error \<Rightarrow> set_prop ''stats_error'' (JStr (err_message error)))
                  (case ?P of
                     Resolves response \<Rightarrow> spread [] (resp_data response)
                   | Rejects error \<Rightarrow> [(''poke_api_error'', JStr (err_message error))]))"
    by (cases ?P; cases ?S; cases ?I) (simp_all add: merge_defs settle_def fetch)
  have poke: "case ?P of
              Resolves response \<Rightarrow>
                map_of (agg_status ?r) ''poke_api'' = Some ''success'' \<and>
                (\<forall>k. k \<noteq> (case ?S of Resolves response \<Rightarrow> ''stats'' | Rejects error \<Rightarrow> ''stats_error'') \<and>
                     k \<noteq> (case ?I of Resolves response \<Rightarrow> ''image'' | Rejects error \<Rightarrow> ''image_error'') \<longrightarrow>
                     map_of (agg_data ?r) k = map_of (spread [] (resp_data response)) k)
            | Rejects error \<Rightarrow>
                map_of (agg_status ?r) ''poke_api'' = Some ''error'' \<and>
                map_of (agg_data ?r) ''poke_api_error'' = Some (JStr (err_message error))"
    unfolding status data
    by (cases ?P; cases ?S; cases ?I) (simp_all add: map_of_set_prop)
  have stats: "case ?S of
              Resolves response \<Rightarrow>
                map_of (agg_status ?r) ''stats_api'' = Some ''success'' \<and>
                map_of (agg_data ?r) ''stats'' = Some (resp_data response)
            | Rejects error \<Rightarrow>
                map_of (agg_status ?r) ''stats_api'' = Some ''error'' \<and>
                map_of (agg_data ?r) ''stats_error'' = Some (JStr (err_message error))"
    unfolding status data
    by (cases ?P; cases ?S; cases ?I) (simp_all add: map_of_set_prop)
  have image: "case ?I of
              Resolves response \<Rightarrow>
                map_of (agg_status ?r) ''images_api'' = Some ''success'' \<and>
                map_of (agg_data ?r) ''image'' = Some (resp_data response)
            | Rejects error \<Rightarrow>
                map_of (agg_status ?r) ''images_api'' = Some ''error'' \<and>
                map_of (agg_data ?r) ''image_error'' = Some (JStr (err_message error))"
    unfolding status data
    by (cases ?P; cases ?S; cases ?I) (simp_all add: map_of_set_prop)
  from search_handler_string [OF assms, of cfg get sent] status data poke stats image
  show ?thesis by blast
qed

text \<open>The statement at the key \<^verbatim>\<open>pikachu\<close> with the stats backend timing out: the
  \<^verbatim>\<open>stats\<close> property of the poke payload stays in the data.\<close>

theorem merge_policy_witness:
  "''pikachu'' \<noteq> [] \<and> valid_schedule 3 [1, 2, 0] \<and>
   (\<exists>requested r.
           search_handler example_search_cfg stats_down [1, 2, 0] (Some (QStr ''pikachu'')) [] =
             Some (requested, \<lparr>status_code = 200, body = Search_body r\<rparr>) \<and>
           agg_status r =
             [(''poke_api'',
               case stats_down (pokemon_data_url example_search_cfg ''pikachu'') 5000 of
                 Resolves response \<Rightarrow> ''success'' | Rejects error \<Rightarrow> ''error''),
              (''stats_api'',
               case stats_down (pokemon_stats_url example_search_cfg ''pikachu'') 5000 of
                 Resolves response \<Rightarrow> ''success'' | Rejects error \<Rightarrow> ''error''),
              (''images_api'',
               case stats_down (pokemon_image_url example_search_cfg ''pikachu'') 5000 of
                 Resolves response \<Rightarrow> ''success'' | Rejects error \<Rightarrow> ''error'')] \<and>
           agg_data r =
             (case stats_down (pokemon_image_url example_search_cfg ''pikachu'') 5000 of
                Resolves response \<Rightarrow> set_prop ''image'' (resp_data response)
              | Rejects error \<Rightarrow> set_prop ''image_error'' (JStr (err_message error)))
               ((case stats_down (pokemon_stats_url example_search_cfg ''pikachu'') 5000 of
                   Resolves response \<Rightarrow> set_prop ''stats'' (resp_data response)
                 | Rejects error \<Rightarrow> set_prop ''stats_error'' (JStr (err_message error)))
                  (case stats_down (pokemon_data_url example_search_cfg ''pikachu'') 5000 of
                     Resolves response \<Rightarrow> spread [] (resp_data response)
                   | Rejects error \<Rightarrow> [(''poke_api_error'', JStr (err_message error))])) \<and>
           (case stats_down (pokemon_data_url example_search_cfg ''pikachu'') 5000 of
              Resolves response \<Rightarrow>
                map_of (agg_status r) ''poke_api'' = Some ''success'' \<and>
                (\<forall>k. k \<noteq> (case stats_down (pokemon_stats_url example_search_cfg ''pikachu'') 5000 of
                             Resolves response \<Rightarrow> ''stats'' | Rejects error \<Rightarrow> ''stats_error'') \<and>
                     k \<noteq> (case stats_down (pokemon_image_url example_search_cfg ''pikachu'') 5000 of
                             Resolves response \<Rightarrow> ''image'' | Rejects error \<Rightarrow> ''image_error'') \<longrightarrow>
                     map_of (agg_data r) k = map_of (spread [] (resp_data response)) k)
            | Rejects error \<Rightarrow>
                map_of (agg_status r) ''poke_api'' = Some ''error'' \<and>
                map_of (agg_data r) ''poke_api_error'' = Some (JStr (err_message error))) \<and>
           (case stats_down (pokemon_stats_url example_search_cfg ''pikachu'') 5000 of
              Resolves response \<Rightarrow>
                map_of (agg_status r) ''stats_api'' = Some ''success'' \<and>
                map_of (agg_data r) ''stats'' = Some (resp_data response)
            | Rejects error \<Rightarrow>
                map_of (agg_status r) ''stats_api'' = Some ''error'' \<and>
                map_of (agg_data r) ''stats_error'' = Some (JStr (err_message error))) \<and>
           (case stats_down (pokemon_image_url example_search_cfg ''pikachu'') 5000 of
              Resolves response \<Rightarrow>
                map_of (agg_status r) ''images_api'' = Some ''success'' \<and>
                map_of (agg_data r) ''image'' = Some (resp_data response)
            | Rejects error \<Rightarrow>
                map_of (agg_status r) ''images_api'' = Some ''error'' \<and>
                map_of (agg_data r) ''image_error'' = Some (JStr (err_message error))))"
proof -
  have name: "''pikachu'' \<noteq> []" by simp
  have sched: "valid_schedule 3 [1, 2, 0]" by (rule example_schedules)
  show ?thesis
    by (intro conjI name sched merge_policy [OF name sched])
qed

lemma merge_example_keeps_poke_stats:
  "map_of (agg_data (merge_results (QStr ''pikachu'') (Fulfilled pikachu_data)
                       (Rejected timeout_error) (Fulfilled pikachu_image))) ''stats'' =
     Some (JArr [JObj [(''name'', JStr ''hp''), (''base_stat'', JNum 35)]])"
  by code_simp

text \<open>
  C3. The merged output is a function of the three settled results alone: two runs of the
  search whose three lookups settle with the same results reply with the same data and the
  same status map, whatever the order in which the requests of either run complete, and
  with the same whole response when the keys agree.
\<close>

theorem search_deterministic:
  assumes "k1 \<noteq> []" and "k2 \<noteq> []"
    and "valid_schedule 3 order1" and "valid_schedule 3 order2"
    and "fst (fetchPokemonData cfg1 get1 (QStr k1) sent1) =
         fst (fetchPokemonData cfg2 get2 (QStr k2) sent2)"
    and "fst (fetchPokemonStats cfg1 get1 (QStr k1) sent1) =
         fst (fetchPokemonStats cfg2 get2 (QStr k2) sent2)"
    and "fst (fetchPokemonImage cfg1 get1 (QStr k1) sent1) =
         fst (fetchPokemonImage cfg2 get2 (QStr k2) sent2)"
  shows "\<exists>q1 q2 r1 r2.
           search_handler cfg1 get1 order1 (Some (QStr k1)) sent1 =
             Some (q1, \<lparr>status_code = 200, body = Search_body r1\<rparr>) \<and>
           search_handler cfg2 get2 order2 (Some (QStr k2)) sent2 =
             Some (q2, \<lparr>status_code = 200, body = Search_body r2\<rparr>) \<and>
           agg_data r1 = agg_data r2 \<and> agg_status r1 = agg_status r2 \<and>
           (k1 = k2 \<longrightarrow> r1 = r2)"
proof -
  let ?p = "settle (fst (fetchPokemonData cfg2 get2 (QStr k2) []))"
  let ?s = "settle (fst (fetchPokemonStats cfg2 get2 (QStr k2) []))"
  let ?i = "settle (fst (fetchPokemonImage cfg2 get2 (QStr k2) []))"
  have same: "fst (fetchPokemonData cfg1 get1 (QStr k1) []) = fst (fetchPokemonData cfg2 get2 (QStr k2) [])"
    "fst (fetchPokemonStats cfg1 get1 (QStr k1) []) = fst (fetchPokemonStats cfg2 get2 (QStr k2) [])"
    "fst (fetchPokemonImage cfg1 get1 (QStr k1) []) = fst (fetchPokemonImage cfg2 get2 (QStr k2) [])"
    using assms(5-7)
      fetch_result_any_log [of cfg1 get1 "QStr k1" "[]" sent1]
      fetch_result_any_log [of cfg2 get2 "QStr k2" "[]" sent2]
    by simp_all
  have run1: "search_handler cfg1 get1 order1 (Some (QStr k1)) sent1 =
      Some (sent1 @ [pokemon_data_url cfg1 k1, pokemon_stats_url cfg1 k1, pokemon_image_url cfg1 k1],
            \<lparr>status_code = 200, body = Search_body (merge_results (QStr k1) ?p ?s ?i)\<rparr>)"
    using search_handler_string [OF assms(1,3), of cfg1 get1 sent1] same by simp
  have run2: "search_handler cfg2 get2 order2 (Some (QStr k2)) sent2 =
      Some (sent2 @ [pokemon_data_url cfg2 k2, pokemon_stats_url cfg2 k2, pokemon_image_url cfg2 k2],
            \<lparr>status_code = 200, body = Search_body (merge_results (QStr k2) ?p ?s ?i)\<rparr>)"
    using search_handler_string [OF assms(2,4), of cfg2 get2 sent2] by simp
  have "agg_data (merge_results (QStr k1) ?p ?s ?i) = agg_data (merge_results (QStr k2) ?p ?s ?i)"
    by (rule data_merge_results_name)
  moreover have "agg_status (merge_results (QStr k1) ?p ?s ?i) =
      agg_status (merge_results (QStr k2) ?p ?s ?i)"
    by (simp add: status_merge_results)
  ultimately show ?thesis
    using run1 run2 by blast
qed

theorem search_deterministic_witness:
  "''pikachu'' \<noteq> [] \<and> valid_schedule 3 [0, 1, 2] \<and> valid_schedule 3 [2, 0, 1] \<and>
   (\<exists>q1 q2 r1 r2.
      search_handler example_search_cfg stats_down [0, 1, 2] (Some (QStr ''pikachu'')) [] =
        Some (q1, \<lparr>status_code = 200, body = Search_body r1\<rparr>) \<and>
      search_handler example_search_cfg stats_down [2, 0, 1] (Some (QStr ''pikachu'')) [] =
        Some (q2, \<lparr>status_code = 200, body = Search_body r2\<rparr>) \<and>
      agg_data r1 = agg_data r2 \<and> agg_status r1 = agg_status r2 \<and>
      (''pikachu'' = ''pikachu'' \<longrightarrow> r1 = r2))"
proof -
  have name: "''pikachu'' \<noteq> []" by simp
  have first: "valid_schedule 3 [0, 1, 2]" by (rule example_schedules)
  have second: "valid_schedule 3 [2, 0, 1]" by (rule example_schedules)
  show ?thesis
    by (intro conjI name first second
          search_deterministic [OF name name first second refl refl refl])
qed

text \<open>
  C8, as stated, at the request \<^verbatim>\<open>/poke/search?pokemon_name=&pokemon_name=\<close>, whose key is
  given twice and empty both times. The parameter reaches the handler as the array of two
  empty strings, which is truthy: the guard does not reject it, the three lookups are sent
  (for the name \<^verbatim>\<open>,\<close>, the array as a string; every backend answers 404) and the reply is
  200.
\<close>

theorem empty_key_array_counterexample:
  "search_handler example_search_cfg lookups_not_found [0, 1, 2]
     (Some (QArr [QStr [], QStr []])) [] =
     Some ([''http://localhost:3004/api/pokemon/,'',
            ''http://localhost:3002/api/stats/,'',
            ''http://localhost:3003/api/images/,''],
           \<lparr>status_code = 200,
            body = Search_body
              \<lparr>agg_name = QArr [QStr [], QStr []],
               agg_status = [(''poke_api'', ''error''), (''stats_api'', ''error''),
                             (''images_api'', ''error'')],
               agg_data =
                 [(''poke_api_error'', JStr ''Request failed with status code 404''),
                  (''stats_error'', JStr ''Request failed with status code 404''),
                  (''image_error'', JStr ''Request failed with status code 404'')]\<rparr>\<rparr>)"
  by code_simp

text \<open>
  C8, amended. A request to the search route whose \<^verbatim>\<open>pokemon_name\<close> is missing or is the
  empty string is answered with status 400, and the handler sends no request to any
  backend: the request log is returned as it was. Every other value of the parameter,
  an array of empty strings included, passes the guard: the reply is never 400, and when
  the value converts to a string the three lookups are sent for that string and the reply
  is 200.
\<close>

theorem search_guard:
  "((query_pokemon_name = None \<or> query_pokemon_name = Some (QStr [])) \<longrightarrow>
      search_handler cfg get order query_pokemon_name sent =
        Some (sent, \<lparr>status_code = 400,
                      body = Error_body [(''error'', ''pokemon_name parameter is required'')]\<rparr>)) \<and>
   (query_pokemon_name \<noteq> None \<and> query_pokemon_name \<noteq> Some (QStr []) \<longrightarrow>
      (\<forall>sent' reply.
          search_handler cfg get order query_pokemon_name sent = Some (sent', reply) \<longrightarrow>
          status_code reply \<noteq> 400)) \<and>
   (\<forall>v name.
      query_pokemon_name = Some v \<and> v \<noteq> QStr [] \<and> to_string v = Some name \<and>
      valid_schedule 3 order \<longrightarrow>
      (\<exists>r. search_handler cfg get order query_pokemon_name sent =
              Some (sent @ [pokemon_data_url cfg name, pokemon_stats_url cfg name,
                            pokemon_image_url cfg name],
                    \<lparr>status_code = 200, body = Search_body r\<rparr>)))"
proof (intro conjI impI allI)
  assume "query_pokemon_name = None \<or> query_pokemon_name = Some (QStr [])"
  then show "search_handler cfg get order query_pokemon_name sent =
      Some (sent, \<lparr>status_code = 400,
                    body = Error_body [(''error'', ''pokemon_name parameter is required'')]\<rparr>)"
    by (auto simp: search_handler_def missing_parameter_def)
next
  fix sent' reply
  assume present: "query_pokemon_name \<noteq> None \<and> query_pokemon_name \<noteq> Some (QStr [])"
    and run: "search_handler cfg get order query_pokemon_name sent = Some (sent', reply)"
  from present obtain v where v: "query_pokemon_name = Some v" "v \<noteq> QStr []"
    by (cases query_pokemon_name) auto
  then have "truthy v"
    by (cases v) simp_all
  with run v have "status_code reply = 200 \<or> status_code reply = 500"
    by (auto dest: truthy_reply_not_400)
  then show "status_code reply \<noteq> 400"
    by auto
next
  fix v name
  assume a: "query_pokemon_name = Some v \<and> v \<noteq> QStr [] \<and> to_string v = Some name \<and>
      valid_schedule 3 order"
  then have "truthy v"
    by (cases v) simp_all
  with a search_handler_valid [of v name order cfg get sent]
  show "\<exists>r. search_handler cfg get order query_pokemon_name sent =
              Some (sent @ [pokemon_data_url cfg name, pokemon_stats_url cfg name,
                            pokemon_image_url cfg name],
                    \<lparr>status_code = 200, body = Search_body r\<rparr>)"
    by auto
qed

text \<open>The statement at the empty string, after an earlier request: the log is unchanged.\<close>

theorem search_guard_witness:
  "(Some (QStr []) = (None :: query_value option) \<or> Some (QStr []) = Some (QStr [])) \<and>
   search_handler example_search_cfg backends_up [0, 1, 2] (Some (QStr []))
       [''http://localhost:3004/api/pokemon/mew''] =
     Some ([''http://localhost:3004/api/pokemon/mew''],
           \<lparr>status_code = 400,
            body = Error_body [(''error'', ''pokemon_name parameter is required'')]\<rparr>)"
proof -
  have empty: "Some (QStr []) = (None :: query_value option) \<or> Some (QStr []) = Some (QStr [])"
    by simp
  show ?thesis
    by (intro conjI empty
          search_guard [where query_pokemon_name = "Some (QStr [])", THEN conjunct1, rule_format,
            OF empty])
qed

text \<open>
  C9. The poke payload is spread into the data first and the stats and image fields are
  assigned afterwards; so whenever both the poke lookup and the stats lookup succeed, the
  field \<^verbatim>\<open>stats\<close> of the merged data is the payload of the stats backend, whatever \<^verbatim>\<open>stats\<close>
  field the poke payload brought.
\<close>

theorem stats_field_overwritten:
  assumes "pokemon_name \<noteq> []" and "valid_schedule 3 order"
    and "get (pokemon_data_url cfg pokemon_name) 5000 = Resolves poke"
    and "get (pokemon_stats_url cfg pokemon_name) 5000 = Resolves stats"
  shows "\<exists>requested r image_key image_value.
           search_handler cfg get order (Some (QStr pokemon_name)) sent =
             Some (requested, \<lparr>status_code = 200, body = Search_body r\<rparr>) \<and>
           agg_data r =
             set_prop image_key image_value
               (set_prop ''stats'' (resp_data stats) (spread [] (resp_data poke))) \<and>
           image_key \<in> {''image'', ''image_error''} \<and>
           map_of (agg_data r) ''stats'' = Some (resp_data stats)"
proof -
  let ?r = "merge_results (QStr pokemon_name)
              (settle (fst (fetchPokemonData cfg get (QStr pokemon_name) [])))
              (settle (fst (fetchPokemonStats cfg get (QStr pokemon_name) [])))
              (settle (fst (fetchPokemonImage cfg get (QStr pokemon_name) [])))"
  have conv: "to_string (QStr pokemon_name) = Some pokemon_name"
    by simp
  have "\<exists>image_key image_value.
          agg_data ?r =
             set_prop image_key image_value
               (set_prop ''stats'' (resp_data stats) (spread [] (resp_data poke))) \<and>
          image_key \<in> {''image'', ''image_error''} \<and>
          map_of (agg_data ?r) ''stats'' = Some (resp_data stats)"
    using assms(3,4)
    by (cases "get (pokemon_image_url cfg pokemon_name) 5000")
       (auto simp: merge_defs settle_def fetch_string [OF conv] map_of_set_prop)
  with search_handler_string [OF assms(1,2), of cfg get sent]
  show ?thesis by blast
qed

theorem stats_field_overwritten_witness:
  "''pikachu'' \<noteq> [] \<and> valid_schedule 3 [2, 0, 1] \<and>
   backends_up (pokemon_data_url example_search_cfg ''pikachu'') 5000 =
     Resolves (ok_response pikachu_data) \<and>
   backends_up (pokemon_stats_url example_search_cfg ''pikachu'') 5000 =
     Resolves (ok_response pikachu_stats) \<and>
   (\<exists>requested r image_key image_value.
      search_handler example_search_cfg backends_up [2, 0, 1] (Some (QStr ''pikachu'')) [] =
        Some (requested, \<lparr>status_code = 200, body = Search_body r\<rparr>) \<and>
      agg_data r =
        set_prop image_key image_value
          (set_prop ''stats'' (resp_data (ok_response pikachu_stats))
             (spread [] (resp_data (ok_response pikachu_data)))) \<and>
      image_key \<in> {''image'', ''image_error''} \<and>
      map_of (agg_data r) ''stats'' = Some (resp_data (ok_response pikachu_stats)))"
proof -
  have name: "''pikachu'' \<noteq> []" by simp
  have sched: "valid_schedule 3 [2, 0, 1]" by (rule example_schedules)
  note poke = example_lookups(1) and stats = example_lookups(2)
  show ?thesis
    by (intro conjI name sched poke stats
          stats_field_overwritten [where get = backends_up and cfg = example_search_cfg,
            OF name sched poke stats])
qed

section \<open>Properties of the gateway\<close>

subsection \<open>The health report\<close>

lemma healthCheck_eq:
  "healthCheck get entry ms = set_prop (service_key entry) (health_entry get entry) ms"
  by (cases entry; cases "get (snd entry @ ''/health'') 5000")
     (simp_all add: healthCheck_def health_entry_def service_key_def)

lemma health_entry_status:
  "svc_status (health_entry get entry) = ''healthy'' \<longleftrightarrow>
     (\<exists>response. get (snd entry @ ''/health'') 5000 = Resolves response)"
  by (cases "get (snd entry @ ''/health'') 5000") (simp_all add: health_entry_def)

lemma health_entry_unhealthy:
  "get (snd entry @ ''/health'') 5000 = Rejects error \<Longrightarrow>
   svc_status (health_entry get entry) = ''unhealthy''"
  by (simp add: health_entry_def)

lemma key_set_set_prop: "fst ` set (set_prop k v ps) = insert k (fst ` set ps)"
  using keys_set_prop [of k v ps, THEN arg_cong, of set] by (auto split: if_splits)

lemma check_step_eq:
  "check_step get entries i ms =
     (if i < length entries
      then set_prop (service_key (entries ! i)) (health_entry get (entries ! i)) ms else ms)"
  by (simp add: check_step_def healthCheck_eq)

lemma map_of_fold_checks:
  assumes "distinct (map service_key entries)" and "j < length entries"
  shows "map_of (fold (check_step get entries) order ms) (service_key (entries ! j)) =
           (if j \<in> set order then Some (health_entry get (entries ! j))
            else map_of ms (service_key (entries ! j)))"
proof (induction order arbitrary: ms)
  case Nil
  then show ?case by simp
next
  case (Cons i order)
  have key: "service_key (entries ! i) = service_key (entries ! j) \<longleftrightarrow> i = j"
    if "i < length entries"
    using that assms nth_eq_iff_index_eq [of "map service_key entries" i j] by simp
  have first: "map_of (check_step get entries i ms) (service_key (entries ! j)) =
      (if i = j then Some (health_entry get (entries ! j))
       else map_of ms (service_key (entries ! j)))"
    using assms(2) key by (auto simp: check_step_eq map_of_set_prop)
  have "map_of (fold (check_step get entries) (i # order) ms) (service_key (entries ! j)) =
      map_of (fold (check_step get entries) order (check_step get entries i ms))
        (service_key (entries ! j))"
    by simp
  also have "\<dots> = (if j \<in> set order then Some (health_entry get (entries ! j))
       else map_of (check_step get entries i ms) (service_key (entries ! j)))"
    by (rule Cons.IH)
  finally show ?case
    using first by auto
qed

lemma keys_fold_checks:
  "fst ` set (fold (check_step get entries) order ms) \<subseteq> fst ` set ms \<union> service_key ` set entries"
proof (induction order arbitrary: ms)
  case Nil
  then show ?case by simp
next
  case (Cons i order)
  have "fst ` set (check_step get entries i ms) \<subseteq> fst ` set ms \<union> service_key ` set entries"
    by (auto simp: check_step_eq key_set_set_prop)
  moreover have "fold (check_step get entries) (i # order) ms =
      fold (check_step get entries) order (check_step get entries i ms)"
    by simp
  ultimately show ?case
    using Cons.IH [of "check_step get entries i ms"] by (simp only:) blast
qed

lemma distinct_fold_checks:
  "distinct (map fst ms) \<Longrightarrow> distinct (map fst (fold (check_step get entries) order ms))"
proof (induction order arbitrary: ms)
  case Nil
  then show ?case by simp
next
  case (Cons i order)
  have "distinct (map fst (check_step get entries i ms))"
    using Cons.prems by (simp add: check_step_eq distinct_set_prop)
  then have "distinct (map fst (fold (check_step get entries) order (check_step get entries i ms)))"
    by (rule Cons.IH)
  then show ?case by simp
qed

lemma run_checks_valid:
  assumes "valid_schedule (length entries) order"
  shows "run_checks get entries order = Some (fold (check_step get entries) order [])"
proof -
  have "list_all (\<lambda>i. i \<in> set order) [0..<length entries]"
    using assms by (simp add: valid_schedule_def list_all_iff)
  moreover have "(\<lambda>i ms. if i < length entries then healthCheck get (entries ! i) ms else ms) =
      check_step get entries"
    by (simp add: fun_eq_iff check_step_def)
  ultimately show ?thesis
    by (simp add: run_checks_def)
qed

lemma set_fold_checks:
  assumes "valid_schedule (length entries) order" and "distinct (map service_key entries)"
  shows "set (fold (check_step get entries) order []) =
           (\<lambda>e. (service_key e, health_entry get e)) ` set entries"
    (is "set ?ms = ?img")
proof
  have dist: "distinct (map fst ?ms)"
    by (rule distinct_fold_checks) simp
  have look: "map_of ?ms (service_key (entries ! j)) = Some (health_entry get (entries ! j))"
    if "j < length entries" for j
    using that assms map_of_fold_checks [OF assms(2) that, of get order "[]"]
    by (simp add: valid_schedule_def)
  show "set ?ms \<subseteq> ?img"
  proof
    fix kv assume kv: "kv \<in> set ?ms"
    obtain k v where [simp]: "kv = (k, v)" by (cases kv)
    have "k \<in> service_key ` set entries"
      using keys_fold_checks [of get entries order "[]"] kv by force
    then obtain j where j: "j < length entries" "k = service_key (entries ! j)"
      by (auto simp: in_set_conv_nth)
    have "map_of ?ms k = Some v"
      using dist kv by simp
    with look [OF j(1)] j(2) have "v = health_entry get (entries ! j)"
      by simp
    with j show "kv \<in> ?img"
      by auto
  qed
  show "?img \<subseteq> set ?ms"
  proof
    fix kv assume "kv \<in> ?img"
    then obtain j where j: "j < length entries"
        "kv = (service_key (entries ! j), health_entry get (entries ! j))"
      by (auto simp: in_set_conv_nth)
    from look [OF j(1)] show "kv \<in> set ?ms"
      unfolding j(2) by (rule map_of_SomeD)
  qed
qed

lemma map_of_fold_checks_all:
  assumes "valid_schedule (length entries) order" and "distinct (map service_key entries)"
  shows "map_of (fold (check_step get entries) order []) =
           map_of (map (\<lambda>e. (service_key e, health_entry get e)) entries)"
proof -
  have d1: "distinct (map fst (fold (check_step get entries) order []))"
    by (rule distinct_fold_checks) simp
  have d2: "distinct (map fst (map (\<lambda>e. (service_key e, health_entry get e)) entries))"
    using assms(2) by (simp add: comp_def)
  show ?thesis
    using set_fold_checks [OF assms, of get] map_of_inject_set [OF d1 d2] by simp
qed

lemma toLowerCase_names:
  "toLowerCase ''SEARCH_API'' = ''search_api''"
  "toLowerCase ''STATS_API'' = ''stats_api''"
  "toLowerCase ''IMAGES_API'' = ''images_api''"
  "toLowerCase ''POKE_API'' = ''poke_api''"
  by code_simp+

lemma distinct_registry_keys: "distinct (map service_key (MICROSERVICES cfg))"
  by (simp add: MICROSERVICES_def service_key_def toLowerCase_names)

lemma length_registry: "length (MICROSERVICES cfg) = 4"
  by (simp add: MICROSERVICES_def)

lemma status_handler_valid:
  assumes "valid_schedule 4 order"
  shows "\<exists>ms. status_handler cfg rt get order =
           Some \<lparr>status_code =
                    (if \<forall>e \<in> set (MICROSERVICES cfg). svc_status (health_entry get e) = ''healthy''
                     then 200 else 503),
                  body =
                    \<lparr>st_gateway =
                       \<lparr>gw_status = ''healthy'', gw_uptime = rt_uptime rt,
                        gw_memory = rt_memoryUsage rt, gw_timestamp = rt_timestamp rt\<rparr>,
                     st_microservices = ms,
                     overall_status =
                       (if \<forall>e \<in> set (MICROSERVICES cfg). svc_status (health_entry get e) = ''healthy''
                        then ''healthy'' else ''degraded''),
                     check_duration_ms = rt_endTime rt - rt_startTime rt\<rparr>\<rparr> \<and>
           set ms = (\<lambda>e. (service_key e, health_entry get e)) ` set (MICROSERVICES cfg) \<and>
           map_of ms = map_of (map (\<lambda>e. (service_key e, health_entry get e)) (MICROSERVICES cfg))"
proof -
  let ?entries = "MICROSERVICES cfg"
  let ?ms = "fold (check_step get ?entries) order []"
  have valid: "valid_schedule (length ?entries) order"
    using assms by (simp add: length_registry)
  have run: "run_checks get ?entries order = Some ?ms"
    using valid by (rule run_checks_valid)
  have set_ms: "set ?ms = (\<lambda>e. (service_key e, health_entry get e)) ` set ?entries"
    using valid distinct_registry_keys by (rule set_fold_checks)
  have map_ms: "map_of ?ms = map_of (map (\<lambda>e. (service_key e, health_entry get e)) ?entries)"
    using valid distinct_registry_keys by (rule map_of_fold_checks_all)
  have all: "list_all (\<lambda>service. svc_status service = ''healthy'') (map snd ?ms) \<longleftrightarrow>
      (\<forall>e \<in> set ?entries. svc_status (health_entry get e) = ''healthy'')"
    unfolding list_all_iff set_map set_ms by force
  show ?thesis
    using run set_ms map_ms by (simp add: status_handler_def Let_def all)
qed

lemma map_of_entries_flip:
  assumes "\<forall>(otherName, otherUrl) \<in> set entries.
             otherName \<noteq> serviceName \<longrightarrow>
             get' (otherUrl @ ''/health'') 5000 = get (otherUrl @ ''/health'') 5000"
    and "k \<noteq> toLowerCase serviceName"
  shows "map_of (map (\<lambda>e. (service_key e, health_entry get' e)) entries) k =
         map_of (map (\<lambda>e. (service_key e, health_entry get e)) entries) k"
  using assms
proof (induction entries)
  case Nil
  then show ?case by simp
next
  case (Cons e entries)
  obtain n u where e: "e = (n, u)" by (cases e)
  show ?case
  proof (cases "n = serviceName")
    case True
    with Cons e show ?thesis by (simp add: service_key_def)
  next
    case False
    with Cons.prems e have "health_entry get' e = health_entry get e"
      by (simp add: health_entry_def)
    with Cons show ?thesis by simp
  qed
qed

text \<open>
  C4. For every combination of outcomes of the four health requests, under every schedule
  in which they all settle: the overall status is \<^verbatim>\<open>healthy\<close> exactly when every entry of
  the report is \<^verbatim>\<open>healthy\<close>, and \<^verbatim>\<open>degraded\<close> otherwise; the response code is 200 in the
  first case and 503 in the second; the entry of a service is \<^verbatim>\<open>healthy\<close> exactly when its
  request resolved; and if one service is made to fail while the outcomes of the others
  stay as they were, the report is \<^verbatim>\<open>degraded\<close> with code 503, the entry of that service is
  \<^verbatim>\<open>unhealthy\<close>, and every other entry is unchanged.
\<close>

theorem health_reduction:
  assumes "valid_schedule 4 order" and "valid_schedule 4 order'"
  shows "\<exists>r. status_handler cfg rt get order = Some r \<and>
           (overall_status (body r) = ''healthy'' \<longleftrightarrow>
              (\<forall>(service, entry) \<in> set (st_microservices (body r)). svc_status entry = ''healthy'')) \<and>
           (overall_status (body r) \<noteq> ''healthy'' \<longrightarrow> overall_status (body r) = ''degraded'') \<and>
           status_code r = (if overall_status (body r) = ''healthy'' then 200 else 503) \<and>
           (\<forall>(serviceName, serviceUrl) \<in> set (MICROSERVICES cfg).
              \<exists>entry. map_of (st_microservices (body r)) (toLowerCase serviceName) = Some entry \<and>
                (svc_status entry = ''healthy'' \<longleftrightarrow>
                   (\<exists>response. get (serviceUrl @ ''/health'') 5000 = Resolves response))) \<and>
           (\<forall>serviceName serviceUrl error get'.
              (serviceName, serviceUrl) \<in> set (MICROSERVICES cfg) \<and>
              get' (serviceUrl @ ''/health'') 5000 = Rejects error \<and>
              (\<forall>(otherName, otherUrl) \<in> set (MICROSERVICES cfg).
                 otherName \<noteq> serviceName \<longrightarrow>
                 get' (otherUrl @ ''/health'') 5000 = get (otherUrl @ ''/health'') 5000) \<longrightarrow>
              (\<exists>r'. status_handler cfg rt get' order' = Some r' \<and>
                 overall_status (body r') = ''degraded'' \<and> status_code r' = 503 \<and>
                 (\<exists>entry. map_of (st_microservices (body r')) (toLowerCase serviceName) = Some entry \<and>
                    svc_status entry = ''unhealthy'') \<and>
                 (\<forall>k. k \<noteq> toLowerCase serviceName \<longrightarrow>
                    map_of (st_microservices (body r')) k = map_of (st_microservices (body r)) k)))"
proof -
  let ?entries = "MICROSERVICES cfg"
  let ?healthy = "\<lambda>g. \<forall>e \<in> set ?entries. svc_status (health_entry g e) = ''healthy''"
  obtain r ms where r: "status_handler cfg rt get order = Some r"
    and code: "status_code r = (if ?healthy get then 200 else 503)"
    and overall: "overall_status (body r) = (if ?healthy get then ''healthy'' else ''degraded'')"
    and ms: "st_microservices (body r) = ms"
    and set_ms: "set ms = (\<lambda>e. (service_key e, health_entry get e)) ` set ?entries"
    and map_ms: "map_of ms = map_of (map (\<lambda>e. (service_key e, health_entry get e)) ?entries)"
    using status_handler_valid [OF assms(1), of cfg rt get] by force
  have look: "map_of (map (\<lambda>e. (service_key e, health_entry g e)) ?entries) (service_key e) =
      Some (health_entry g e)" if "e \<in> set ?entries" for g e
  proof -
    have "distinct (map fst (map (\<lambda>e. (service_key e, health_entry g e)) ?entries))"
      using distinct_registry_keys [of cfg] by (simp add: comp_def)
    moreover have "(service_key e, health_entry g e) \<in>
        set (map (\<lambda>e. (service_key e, health_entry g e)) ?entries)"
      using that by auto
    ultimately show ?thesis by (rule map_of_is_SomeI)
  qed
  have iff: "overall_status (body r) = ''healthy'' \<longleftrightarrow>
      (\<forall>(service, entry) \<in> set (st_microservices (body r)). svc_status entry = ''healthy'')"
    unfolding overall ms set_ms by force
  have degraded: "overall_status (body r) \<noteq> ''healthy'' \<longrightarrow> overall_status (body r) = ''degraded''"
    by (simp add: overall)
  have http: "status_code r = (if overall_status (body r) = ''healthy'' then 200 else 503)"
    by (simp add: code overall)
  have entries: "\<forall>(serviceName, serviceUrl) \<in> set ?entries.
      \<exists>entry. map_of (st_microservices (body r)) (toLowerCase serviceName) = Some entry \<and>
        (svc_status entry = ''healthy'' \<longleftrightarrow>
           (\<exists>response. get (serviceUrl @ ''/health'') 5000 = Resolves response))"
  proof (clarify)
    fix n u assume "(n, u) \<in> set ?entries"
    from look [OF this, of get] show "\<exists>entry.
        map_of (st_microservices (body r)) (toLowerCase n) = Some entry \<and>
        (svc_status entry = ''healthy'' \<longleftrightarrow> (\<exists>response. get (u @ ''/health'') 5000 = Resolves response))"
      using health_entry_status [of get "(n, u)"] by (simp add: ms map_ms service_key_def)
  qed
  have flip: "\<exists>r'. status_handler cfg rt get' order' = Some r' \<and>
       overall_status (body r') = ''degraded'' \<and> status_code r' = 503 \<and>
       (\<exists>entry. map_of (st_microservices (body r')) (toLowerCase serviceName) = Some entry \<and>
          svc_status entry = ''unhealthy'') \<and>
       (\<forall>k. k \<noteq> toLowerCase serviceName \<longrightarrow>
          map_of (st_microservices (body r')) k = map_of (st_microservices (body r)) k)"
    if mem: "(serviceName, serviceUrl) \<in> set ?entries"
      and down: "get' (serviceUrl @ ''/health'') 5000 = Rejects error"
      and same: "\<forall>(otherName, otherUrl) \<in> set ?entries.
                 otherName \<noteq> serviceName \<longrightarrow>
                 get' (otherUrl @ ''/health'') 5000 = get (otherUrl @ ''/health'') 5000"
    for serviceName serviceUrl error get'
  proof -
    obtain r' ms' where r': "status_handler cfg rt get' order' = Some r'"
      and code': "status_code r' = (if ?healthy get' then 200 else 503)"
      and overall': "overall_status (body r') = (if ?healthy get' then ''healthy'' else ''degraded'')"
      and ms': "st_microservices (body r') = ms'"
      and map_ms': "map_of ms' = map_of (map (\<lambda>e. (service_key e, health_entry get' e)) ?entries)"
      using status_handler_valid [OF assms(2), of cfg rt get'] by force
    have bad: "svc_status (health_entry get' (serviceName, serviceUrl)) = ''unhealthy''"
      using down by (simp add: health_entry_unhealthy)
    then have not_healthy: "\<not> ?healthy get'"
      using mem by force
    have "map_of ms' (toLowerCase serviceName) = Some (health_entry get' (serviceName, serviceUrl))"
      using look [OF mem, of get'] by (simp add: map_ms' service_key_def)
    moreover have "map_of ms' k = map_of ms k" if "k \<noteq> toLowerCase serviceName" for k
      unfolding map_ms map_ms' using same that by (rule map_of_entries_flip)
    ultimately show ?thesis
      using r' code' overall' ms' ms not_healthy bad by auto
  qed
  show ?thesis
    using r iff degraded http entries flip by blast
qed

theorem health_reduction_witness:
  "valid_schedule 4 [3, 1, 0, 2] \<and> valid_schedule 4 [0, 1, 2, 3] \<and>
   (\<exists>r. status_handler example_gateway_cfg example_runtime services_up [3, 1, 0, 2] = Some r \<and>
           (overall_status (body r) = ''healthy'' \<longleftrightarrow>
              (\<forall>(service, entry) \<in> set (st_microservices (body r)). svc_status entry = ''healthy'')) \<and>
           (overall_status (body r) \<noteq> ''healthy'' \<longrightarrow> overall_status (body r) = ''degraded'') \<and>
           status_code r = (if overall_status (body r) = ''healthy'' then 200 else 503) \<and>
           (\<forall>(serviceName, serviceUrl) \<in> set (MICROSERVICES example_gateway_cfg).
              \<exists>entry. map_of (st_microservices (body r)) (toLowerCase serviceName) = Some entry \<and>
                (svc_status entry = ''healthy'' \<longleftrightarrow>
                   (\<exists>response. services_up (serviceUrl @ ''/health'') 5000 = Resolves response))) \<and>
           (\<forall>serviceName serviceUrl error get'.
              (serviceName, serviceUrl) \<in> set (MICROSERVICES example_gateway_cfg) \<and>
              get' (serviceUrl @ ''/health'') 5000 = Rejects error \<and>
              (\<forall>(otherName, otherUrl) \<in> set (MICROSERVICES example_gateway_cfg).
                 otherName \<noteq> serviceName \<longrightarrow>
                 get' (otherUrl @ ''/health'') 5000 = services_up (otherUrl @ ''/health'') 5000) \<longrightarrow>
              (\<exists>r'. status_handler example_gateway_cfg example_runtime get' [0, 1, 2, 3] = Some r' \<and>
                 overall_status (body r') = ''degraded'' \<and> status_code r' = 503 \<and>
                 (\<exists>entry. map_of (st_microservices (body r')) (toLowerCase serviceName) = Some entry \<and>
                    svc_status entry = ''unhealthy'') \<and>
                 (\<forall>k. k \<noteq> toLowerCase serviceName \<longrightarrow>
                    map_of (st_microservices (body r')) k = map_of (st_microservices (body r)) k))))"
proof -
  have first: "valid_schedule 4 [3, 1, 0, 2]" by (rule example_schedules)
  have second: "valid_schedule 4 [0, 1, 2, 3]" by (rule example_schedules)
  show ?thesis
    by (intro conjI first second health_reduction [OF first second])
qed

text \<open>
  C10. In every report of the status handler the entry of the gateway itself has the
  status \<^verbatim>\<open>healthy\<close>: it is built from the process values only, before and independently of
  any health request. The overall status is computed from the entries of the microservices
  alone.
\<close>

theorem gateway_entry_constant:
  assumes "valid_schedule 4 order"
  shows "\<exists>r. status_handler cfg rt get order = Some r \<and>
           st_gateway (body r) =
             \<lparr>gw_status = ''healthy'', gw_uptime = rt_uptime rt,
              gw_memory = rt_memoryUsage rt, gw_timestamp = rt_timestamp rt\<rparr> \<and>
           gw_status (st_gateway (body r)) = ''healthy'' \<and>
           overall_status (body r) =
             (if list_all (\<lambda>service. svc_status service = ''healthy'')
                   (map snd (st_microservices (body r)))
              then ''healthy'' else ''degraded'')"
proof -
  have "valid_schedule (length (MICROSERVICES cfg)) order"
    using assms by (simp add: length_registry)
  then have "run_checks get (MICROSERVICES cfg) order =
      Some (fold (check_step get (MICROSERVICES cfg)) order [])"
    by (rule run_checks_valid)
  then show ?thesis
    by (simp add: status_handler_def Let_def)
qed

text \<open>With every backend refusing the connection the report is degraded and the gateway
  still reports itself healthy.\<close>

theorem gateway_entry_constant_witness:
  "valid_schedule 4 [3, 1, 0, 2] \<and>
   (\<exists>r. status_handler example_gateway_cfg example_runtime services_down [3, 1, 0, 2] = Some r \<and>
           st_gateway (body r) =
             \<lparr>gw_status = ''healthy'', gw_uptime = rt_uptime example_runtime,
              gw_memory = rt_memoryUsage example_runtime,
              gw_timestamp = rt_timestamp example_runtime\<rparr> \<and>
           gw_status (st_gateway (body r)) = ''healthy'' \<and>
           overall_status (body r) =
             (if list_all (\<lambda>service. svc_status service = ''healthy'')
                   (map snd (st_microservices (body r)))
              then ''healthy'' else ''degraded''))"
proof -
  have sched: "valid_schedule 4 [3, 1, 0, 2]" by (rule example_schedules)
  show ?thesis
    by (intro conjI sched gateway_entry_constant [OF sched])
qed

subsection \<open>The reverse proxy\<close>

lemma proxy_forwards_request:
  "cfg_url (fst (createProxy cfg now ax serviceName basePath req)) =
     template (map_of (MICROSERVICES cfg) serviceName) @ req_originalUrl req \<and>
   cfg_method (fst (createProxy cfg now ax serviceName basePath req)) = req_method req \<and>
   cfg_data (fst (createProxy cfg now ax serviceName basePath req)) = req_body req \<and>
   cfg_params (fst (createProxy cfg now ax serviceName basePath req)) = req_query req"
  by (simp add: fst_createProxy proxy_config_def Let_def)

text \<open>
  C5. When the call to the backend fails, the proxy replies with the body
  \<^verbatim>\<open>{error: "Service unavailable", service, message, timestamp}\<close>: with status 503 when the
  error has no response (a transport failure), and with the status of the backend's
  response when it has one (503 again only if that status is the falsy number 0, which no
  HTTP response carries).
\<close>

theorem proxy_failure_reply:
  assumes "ax (proxy_config cfg serviceName req) = Rejects error"
  shows "(err_response error = None \<longrightarrow>
            snd (createProxy cfg now ax serviceName basePath req) =
              \<lparr>status_code = 503,
               body = Unavailable
                 \<lparr>pf_error = ''Service unavailable'', pf_service = serviceName,
                  pf_message = ''Network error: '' @ err_message error, pf_timestamp = now\<rparr>\<rparr>) \<and>
         (\<forall>r. err_response error = Some r \<longrightarrow>
            snd (createProxy cfg now ax serviceName basePath req) =
              \<lparr>status_code = (if resp_status r = 0 then 503 else resp_status r),
               body = Unavailable
                 \<lparr>pf_error = ''Service unavailable'', pf_service = serviceName,
                  pf_message =
                    ''Service error: '' @ show_nat (resp_status r) @ '' - '' @ resp_statusText r,
                  pf_timestamp = now\<rparr>\<rparr>)"
  using assms by (simp add: createProxy_def Let_def)



text \<open>The statement at a backend that answers 404: the reply relays the 404.\<close>

theorem proxy_failure_reply_witness:
  "backend_not_found (proxy_config example_gateway_cfg ''SEARCH_API'' search_request) =
     Rejects not_found_error \<and>
   snd (createProxy example_gateway_cfg ''2024-01-15T10:00:00.000Z'' backend_not_found
          ''SEARCH_API'' ''/poke/search'' search_request) =
     \<lparr>status_code = 404,
      body = Unavailable
        \<lparr>pf_error = ''Service unavailable'', pf_service = ''SEARCH_API'',
         pf_message = ''Service error: 404 - Not Found'',
         pf_timestamp = ''2024-01-15T10:00:00.000Z''\<rparr>\<rparr>"
proof -
  let ?r = "\<lparr>resp_status = 404, resp_statusText = ''Not Found'', resp_headers = [],
             resp_data = JObj [(''error'', JStr ''Pokemon not found'')]\<rparr>"
  have fails: "backend_not_found (proxy_config example_gateway_cfg ''SEARCH_API'' search_request) =
      Rejects not_found_error"
    by (simp add: backend_not_found_def)
  have response: "err_response not_found_error = Some ?r"
    by (simp add: not_found_error_def)
  have digits: "show_nat 404 = ''404''"
    by code_simp
  have "snd (createProxy example_gateway_cfg ''2024-01-15T10:00:00.000Z'' backend_not_found
          ''SEARCH_API'' ''/poke/search'' search_request) =
     \<lparr>status_code = (if resp_status ?r = 0 then 503 else resp_status ?r),
      body = Unavailable
        \<lparr>pf_error = ''Service unavailable'', pf_service = ''SEARCH_API'',
         pf_message = ''Service error: '' @ show_nat (resp_status ?r) @ '' - '' @ resp_statusText ?r,
         pf_timestamp = ''2024-01-15T10:00:00.000Z''\<rparr>\<rparr>"
    using proxy_failure_reply [where ax = backend_not_found and cfg = example_gateway_cfg
        and serviceName = "''SEARCH_API''" and req = search_request, OF fails] response
    by blast
  then show ?thesis
    using fails by (simp add: digits)
qed

lemma proxy_example_replies:
  "snd (createProxy example_gateway_cfg ''2024-01-15T10:00:00.000Z'' backend_not_found
          ''SEARCH_API'' ''/poke/search'' search_request) =
     \<lparr>status_code = 404,
      body = Unavailable
        \<lparr>pf_error = ''Service unavailable'', pf_service = ''SEARCH_API'',
         pf_message = ''Service error: 404 - Not Found'',
         pf_timestamp = ''2024-01-15T10:00:00.000Z''\<rparr>\<rparr>"
  "snd (createProxy example_gateway_cfg ''2024-01-15T10:00:00.000Z'' backend_refuses
          ''SEARCH_API'' ''/poke/search'' search_request) =
     \<lparr>status_code = 503,
      body = Unavailable
        \<lparr>pf_error = ''Service unavailable'', pf_service = ''SEARCH_API'',
         pf_message = ''Network error: connect ECONNREFUSED 127.0.0.1:3001'',
         pf_timestamp = ''2024-01-15T10:00:00.000Z''\<rparr>\<rparr>"
  by code_simp+

text \<open>
  C6, at the request \<^verbatim>\<open>GET /poke/search?pokemon_name=pikachu\<close>. The target URL is the base
  URL followed by the original URL, query string included; the parsed query is handed to
  the client a second time as \<^verbatim>\<open>params\<close>, and the client appends it to the URL: the backend
  is asked for \<^verbatim>\<open>pokemon_name=pikachu&pokemon_name=pikachu\<close>.
\<close>

theorem proxy_duplicates_query:
  "cfg_url (fst (createProxy example_gateway_cfg ''2024-01-15T10:00:00.000Z'' backend_refuses
                   ''SEARCH_API'' ''/poke/search'' search_request)) =
     ''http://localhost:3001/poke/search?pokemon_name=pikachu'' \<and>
   effective_url (\<lambda>s. s)
     (fst (createProxy example_gateway_cfg ''2024-01-15T10:00:00.000Z'' backend_refuses
             ''SEARCH_API'' ''/poke/search'' search_request)) =
     ''http://localhost:3001/poke/search?pokemon_name=pikachu&pokemon_name=pikachu''"
  by code_simp

text \<open>
  C7. The request that the proxy sends to the backend does not carry the inbound host
  header: in the configuration given to the client the header \<^verbatim>\<open>host\<close> is \<^verbatim>\<open>undefined\<close>, and
  the headers sent are the inbound headers (an object, so with pairwise different names)
  without the entry \<^verbatim>\<open>host\<close>, every other one forwarded with its value.
\<close>

theorem proxy_scrubs_host:
  assumes "distinct (map fst (req_headers req))"
  shows "map_of (cfg_headers (fst (createProxy cfg now ax serviceName basePath req))) ''host'' = Some None \<and>
         sent_headers (fst (createProxy cfg now ax serviceName basePath req)) =
           filter (\<lambda>(k, v). k \<noteq> ''host'') (req_headers req) \<and>
         ''host'' \<notin> fst ` set (sent_headers (fst (createProxy cfg now ax serviceName basePath req)))"
proof -
  let ?config = "proxy_config cfg serviceName req"
  have "distinct (map fst (map (\<lambda>(k, v). (k, Some v)) (req_headers req)))"
    using assms by (simp add: comp_def case_prod_unfold)
  then have headers: "cfg_headers ?config =
      set_prop ''host'' None (map (\<lambda>(k, v). (k, Some v)) (req_headers req))"
    by (simp add: proxy_config_def Let_def copy_props_distinct)
  have undefined: "map_of (cfg_headers ?config) ''host'' = Some None"
    by (simp add: headers map_of_set_prop)
  have sent: "sent_headers ?config = filter (\<lambda>(k, v). k \<noteq> ''host'') (req_headers req)"
    using assms by (simp add: sent_headers_def headers defined_props_scrub)
  have "''host'' \<notin> fst ` set (sent_headers ?config)"
    unfolding sent by auto
  with undefined sent show ?thesis
    by (simp add: fst_createProxy)
qed

theorem proxy_scrubs_host_witness:
  "distinct (map fst (req_headers search_request)) \<and>
   map_of (cfg_headers (fst (createProxy example_gateway_cfg ''2024-01-15T10:00:00.000Z''
             backend_refuses ''SEARCH_API'' ''/poke/search'' search_request))) ''host'' = Some None \<and>
   sent_headers (fst (createProxy example_gateway_cfg ''2024-01-15T10:00:00.000Z''
             backend_refuses ''SEARCH_API'' ''/poke/search'' search_request)) =
     filter (\<lambda>(k, v). k \<noteq> ''host'') (req_headers search_request) \<and>
   ''host'' \<notin> fst ` set (sent_headers (fst (createProxy example_gateway_cfg
             ''2024-01-15T10:00:00.000Z'' backend_refuses ''SEARCH_API'' ''/poke/search''
             search_request)))"
proof -
  have names: "distinct (map fst (req_headers search_request))"
    by (simp add: search_request_def)
  show ?thesis
    by (intro conjI names proxy_scrubs_host [OF names, THEN conjunct1]
          proxy_scrubs_host [OF names, THEN conjunct2, THEN conjunct1]
          proxy_scrubs_host [OF names, THEN conjunct2, THEN conjunct2])
qed

end
